theory Spec2Isabelle
  imports Complex_Main
begin

section \<open>IDAS: the time-stepping engine of \<^verbatim>\<open>src/idas/source/idas.c\<close>\<close>

text \<open>
  Conventions of the embedding.
  \<^item> \<^verbatim>\<open>realtype\<close> is modelled by \<^typ>\<open>real\<close>: arithmetic is exact, there is no rounding,
    no infinity and no NaN. A division by zero yields \<open>0\<close> in HOL; the theorems that depend
    on a quotient state the non-zero condition.
  \<^item> \<^verbatim>\<open>int\<close> and \<^verbatim>\<open>long int\<close> are modelled by \<^typ>\<open>int\<close>; the orders and counters stay
    far from the machine bounds.
  \<^item> An \<^verbatim>\<open>N_Vector\<close> is a list of reals; an array of vectors is a list of vectors.
  \<^item> The fixed-size coefficient arrays \<^verbatim>\<open>psi, alpha, beta, sigma, gamma\<close> are lists, updated
    with \<open>xs[i := v]\<close>; the theorems state the index bounds under which the C accesses
    are in range.
  \<^item> The solver memory \<^verbatim>\<open>struct IDAMemRec\<close> is a record; a C function that mutates it
    takes the record and returns the updated one. Fields keep their \<^verbatim>\<open>ida_\<close> names (the
    macros of idas.c such as \<^verbatim>\<open>#define hh (IDA_mem->ida_hh)\<close> only abbreviate them).
\<close>

type_synonym realtype = real
type_synonym N_Vector = "real list"

subsection \<open>The vector layer\<close>

text \<open>
  Modelled from the spec: the \<^verbatim>\<open>N_V...\<close> operations belong to the nvector module, which is
  not among the sources. Section 4.1 of the specification lists them (scalar*x + scalar*y,
  constant fill, pointwise abs and inverse, add-constant, scale, min component, weighted
  RMS norm, masked weighted RMS norm) and the glossary gives the weighted RMS norm as
  \<open>sqrt (1/N * \<Sum> (x[i] * w[i])\<^sup>2)\<close>. Each operation returns the vector that the C routine
  writes into its output argument.
\<close>

definition N_VLinearSum :: "realtype \<Rightarrow> N_Vector \<Rightarrow> realtype \<Rightarrow> N_Vector \<Rightarrow> N_Vector" where
  "N_VLinearSum a x b y = map2 (\<lambda>xi yi. a * xi + b * yi) x y"

definition N_VScale :: "realtype \<Rightarrow> N_Vector \<Rightarrow> N_Vector" where
  "N_VScale c x = map (\<lambda>xi. c * xi) x"

definition N_VConst :: "realtype \<Rightarrow> N_Vector \<Rightarrow> N_Vector" where
  "N_VConst c z = map (\<lambda>_. c) z"

definition N_VAbs :: "N_Vector \<Rightarrow> N_Vector" where
  "N_VAbs x = map abs x"

definition N_VInv :: "N_Vector \<Rightarrow> N_Vector" where
  "N_VInv x = map (\<lambda>xi. 1 / xi) x"

definition N_VAddConst :: "N_Vector \<Rightarrow> realtype \<Rightarrow> N_Vector" where
  "N_VAddConst x b = map (\<lambda>xi. xi + b) x"

text \<open>The minimum component; the vectors of a problem have at least one component.\<close>

definition N_VMin :: "N_Vector \<Rightarrow> realtype" where
  "N_VMin x = fold min (tl x) (hd x)"

definition N_VWrmsNorm :: "N_Vector \<Rightarrow> N_Vector \<Rightarrow> realtype" where
  "N_VWrmsNorm x w =
     sqrt (sum_list (map2 (\<lambda>xi wi. (xi * wi)\<^sup>2) x w) / real (length x))"

text \<open>
  The masked norm skips the components flagged as algebraic; a component is differential
  when its entry of the mask \<^verbatim>\<open>id\<close> is positive.
\<close>

definition N_VWrmsNormMask :: "N_Vector \<Rightarrow> N_Vector \<Rightarrow> N_Vector \<Rightarrow> realtype" where
  "N_VWrmsNormMask x w msk =
     sqrt (sum_list (map2 (\<lambda>(xi, wi) mi. if mi > 0 then (xi * wi)\<^sup>2 else 0) (zip x w) msk)
           / real (length x))"

text \<open>
  Modelled from the spec: \<^verbatim>\<open>RPowerR\<close> and \<^verbatim>\<open>RSqrt\<close> belong to the sundials math module,
  which is not among the sources. The specification writes them as a real power
  (section 4.6, \<open>(2*est + 10^-4)^(-1/(k+1))\<close>) and a square root (section 4.11).
\<close>

definition RPowerR :: "realtype \<Rightarrow> realtype \<Rightarrow> realtype" where
  "RPowerR base exponent = base powr exponent"

definition RSqrt :: "realtype \<Rightarrow> realtype" where
  "RSqrt x = sqrt x"

subsection \<open>Constants\<close>

text \<open>The constants that idas.c defines itself (lines 40-138).\<close>

definition MXNCF :: int where "MXNCF = 10"
definition MXNEF :: int where "MXNEF = 10"
definition EPCON :: realtype where "EPCON = 0.33"
definition MAXIT :: int where "MAXIT = 4"
definition RATEMAX :: realtype where "RATEMAX = 0.9"
definition XRATE :: realtype where "XRATE = 0.25"

definition PREDICT_AGAIN :: int where "PREDICT_AGAIN = 20"
definition IDA_RES_RECVR :: int where "IDA_RES_RECVR = 1"
definition IDA_LSETUP_RECVR :: int where "IDA_LSETUP_RECVR = 2"
definition IDA_LSOLVE_RECVR :: int where "IDA_LSOLVE_RECVR = 3"
definition IDA_NCONV_RECVR :: int where "IDA_NCONV_RECVR = 4"
definition IDA_CONSTR_RECVR :: int where "IDA_CONSTR_RECVR = 5"
definition CONTINUE_STEPS :: int where "CONTINUE_STEPS = 99"
definition ERROR_TEST_FAIL :: int where "ERROR_TEST_FAIL = 7"

datatype order_action = UNSET | LOWER | RAISE | MAINTAIN

definition CENTERED1 :: int where "CENTERED1 = 0"
definition CENTERED2 :: int where "CENTERED2 = 1"
definition FORWARD1 :: int where "FORWARD1 = 2"
definition FORWARD2 :: int where "FORWARD2 = 3"

text \<open>
  Modelled from the spec: the return flags and option codes below are declared in idas.h,
  which is not among the sources. The specification names them (section 4.9, 4.10, 6 and
  7) without giving values; idas.c states that \<^verbatim>\<open>IDA_SUCCESS = 0\<close> (comment of
  IDANewtonIter) and that nonrecoverable failures are negative (comment of
  IDAHandleNFlag). The numbers are those of the SUNDIALS header; the theorems
  use only the names, the sign of the failure flags and that the flags differ.
\<close>

definition IDA_SUCCESS :: int where "IDA_SUCCESS = 0"
definition IDA_TSTOP_RETURN :: int where "IDA_TSTOP_RETURN = 1"
definition IDA_ILL_INPUT :: int where "IDA_ILL_INPUT = -2"
definition IDA_ERR_FAIL :: int where "IDA_ERR_FAIL = -6"
definition IDA_CONV_FAIL :: int where "IDA_CONV_FAIL = -7"
definition IDA_LSETUP_FAIL :: int where "IDA_LSETUP_FAIL = -9"
definition IDA_LSOLVE_FAIL :: int where "IDA_LSOLVE_FAIL = -10"
definition IDA_RES_FAIL :: int where "IDA_RES_FAIL = -11"
definition IDA_CONSTR_FAIL :: int where "IDA_CONSTR_FAIL = -12"
definition IDA_REP_RES_ERR :: int where "IDA_REP_RES_ERR = -13"
definition IDA_BAD_T :: int where "IDA_BAD_T = -15"

definition IDA_SS :: int where "IDA_SS = 1"
definition IDA_SV :: int where "IDA_SV = 2"

definition IDA_NORMAL :: int where "IDA_NORMAL = 1"
definition IDA_ONE_STEP :: int where "IDA_ONE_STEP = 2"
definition IDA_NORMAL_TSTOP :: int where "IDA_NORMAL_TSTOP = 3"
definition IDA_ONE_STEP_TSTOP :: int where "IDA_ONE_STEP_TSTOP = 4"

definition IDA_SIMULTANEOUS :: int where "IDA_SIMULTANEOUS = 1"
definition IDA_STAGGERED :: int where "IDA_STAGGERED = 2"
definition IDA_STAGGERED1 :: int where "IDA_STAGGERED1 = 3"

definition IDA_ONESENS :: int where "IDA_ONESENS = 1"
definition IDA_ALLSENS :: int where "IDA_ALLSENS = 2"

named_theorems ida_consts \<open>the values of the integer constants\<close>

lemmas ida_flag_defs [ida_consts] =
  PREDICT_AGAIN_def IDA_RES_RECVR_def IDA_LSETUP_RECVR_def IDA_LSOLVE_RECVR_def
  IDA_NCONV_RECVR_def IDA_CONSTR_RECVR_def CONTINUE_STEPS_def ERROR_TEST_FAIL_def
  IDA_SUCCESS_def IDA_TSTOP_RETURN_def IDA_ILL_INPUT_def IDA_ERR_FAIL_def
  IDA_CONV_FAIL_def IDA_LSETUP_FAIL_def IDA_LSOLVE_FAIL_def IDA_RES_FAIL_def
  IDA_CONSTR_FAIL_def IDA_REP_RES_ERR_def IDA_BAD_T_def IDA_SS_def IDA_SV_def
  IDA_NORMAL_def IDA_ONE_STEP_def IDA_NORMAL_TSTOP_def IDA_ONE_STEP_TSTOP_def
  IDA_SIMULTANEOUS_def IDA_STAGGERED_def IDA_STAGGERED1_def IDA_ONESENS_def
  IDA_ALLSENS_def CENTERED1_def CENTERED2_def FORWARD1_def FORWARD2_def

subsection \<open>The solver memory\<close>

text \<open>
  The fields of \<^verbatim>\<open>struct IDAMemRec\<close> that the functions below read or write. The struct
  is declared in idas_impl.h, which is not among the sources; the fields and their types
  are taken from their uses in idas.c.
  \<^item> \<^verbatim>\<open>reltol\<close> is a pointer to a real; the record holds the value pointed to.
  \<^item> \<^verbatim>\<open>abstol\<close> is a \<^verbatim>\<open>void *\<close> that IDAEwtSetSS reads as a pointer to a real and
    IDAEwtSetSV reads as a vector; the record holds the two readings as
    \<open>ida_abstol_ss\<close> and \<open>ida_abstol_sv\<close>.
  \<^item> \<^verbatim>\<open>savres\<close> is preset to \<^verbatim>\<open>tempv1\<close> (IDAAllocVectors, line 2016): a write to savres is a
    write to \<open>ida_tempv1\<close>.
  \<^item> \<^verbatim>\<open>plist\<close> may be \<^verbatim>\<open>NULL\<close>: an option.
  \<^item> \<open>ida_phiS mem ! j ! is\<close> is \<^verbatim>\<open>phiS[j][is]\<close>.
\<close>

record IDAMemRec =
  ida_uround :: realtype
  ida_itol :: int
  ida_reltol :: realtype
  ida_abstol_ss :: realtype
  ida_abstol_sv :: N_Vector
  ida_maxord :: int
  ida_hmax_inv :: realtype
  ida_tstop :: realtype
  ida_maxnef :: int
  ida_maxncf :: int
  ida_maxcor :: int
  ida_epcon :: realtype
  ida_suppressalg :: bool
  ida_id :: N_Vector
  ida_phi :: "N_Vector list"
  ida_ewt :: N_Vector
  ida_yy :: N_Vector
  ida_yp :: N_Vector
  ida_delta :: N_Vector
  ida_ee :: N_Vector
  ida_tempv1 :: N_Vector
  ida_kk :: int
  ida_hh :: realtype
  ida_tn :: realtype
  ida_tretp :: realtype
  ida_cj :: realtype
  ida_cjlast :: realtype
  ida_nst :: int
  ida_nre :: int
  ida_ncfn :: int
  ida_netf :: int
  ida_nni :: int
  ida_ns :: int
  ida_knew :: int
  ida_kused :: int
  ida_hused :: realtype
  ida_phase :: int
  ida_epsNewt :: realtype
  ida_toldel :: realtype
  ida_ss :: realtype
  ida_rr :: realtype
  ida_psi :: "realtype list"
  ida_alpha :: "realtype list"
  ida_beta :: "realtype list"
  ida_sigma :: "realtype list"
  ida_gamma :: "realtype list"
  ida_quad :: bool
  ida_errconQ :: bool
  ida_phiQ :: "N_Vector list"
  ida_ypQ :: N_Vector
  ida_ewtQ :: N_Vector
  ida_eeQ :: N_Vector
  ida_sensi :: bool
  ida_errconS :: bool
  ida_Ns :: int
  ida_ism :: int
  ida_iresS :: int
  ida_rhomax :: realtype
  ida_p :: "realtype list"
  ida_pbar :: "realtype list"
  ida_plist :: "int list option"
  ida_phiS :: "N_Vector list list"
  ida_ewtS :: "N_Vector list"
  ida_yyS :: "N_Vector list"
  ida_ypS :: "N_Vector list"
  ida_deltaS :: "N_Vector list"
  ida_eeS :: "N_Vector list"
  ida_nrSe :: int
  ida_nreS :: int

subsection \<open>Error weights (IDAEwtSet, IDAEwtSetSS, IDAEwtSetSV; lines 2484-2549)\<close>

text \<open>
  Each routine returns the C return value (\<^verbatim>\<open>TRUE\<close>/\<^verbatim>\<open>FALSE\<close>) and the updated memory.
  \<^verbatim>\<open>tempv1\<close> holds \<open>rtol * |ycur| + atol\<close>; \<^verbatim>\<open>ewt\<close> is written only after the test.
\<close>

definition IDAEwtSetSS :: "IDAMemRec \<Rightarrow> N_Vector \<Rightarrow> bool \<times> IDAMemRec" where
  "IDAEwtSetSS mem ycur =
     (let rtoli = ida_reltol mem;
          atoli = ida_abstol_ss mem;
          mem1 = mem\<lparr>ida_tempv1 := N_VAbs ycur\<rparr>;
          mem2 = mem1\<lparr>ida_tempv1 := N_VScale rtoli (ida_tempv1 mem1)\<rparr>;
          mem3 = mem2\<lparr>ida_tempv1 := N_VAddConst (ida_tempv1 mem2) atoli\<rparr>
      in if N_VMin (ida_tempv1 mem3) \<le> 0 then (False, mem3)
         else (True, mem3\<lparr>ida_ewt := N_VInv (ida_tempv1 mem3)\<rparr>))"

definition IDAEwtSetSV :: "IDAMemRec \<Rightarrow> N_Vector \<Rightarrow> bool \<times> IDAMemRec" where
  "IDAEwtSetSV mem ycur =
     (let rtoli = ida_reltol mem;
          atoli = ida_abstol_sv mem;
          mem1 = mem\<lparr>ida_tempv1 := N_VAbs ycur\<rparr>;
          mem2 = mem1\<lparr>ida_tempv1 := N_VLinearSum rtoli (ida_tempv1 mem1) 1 atoli\<rparr>
      in if N_VMin (ida_tempv1 mem2) \<le> 0 then (False, mem2)
         else (True, mem2\<lparr>ida_ewt := N_VInv (ida_tempv1 mem2)\<rparr>))"

definition IDAEwtSet :: "IDAMemRec \<Rightarrow> N_Vector \<Rightarrow> bool \<times> IDAMemRec" where
  "IDAEwtSet mem ycur =
     (if ida_itol mem = IDA_SS then IDAEwtSetSS mem ycur
      else if ida_itol mem = IDA_SV then IDAEwtSetSV mem ycur
      else (True, mem))"


subsection \<open>A concrete solver memory\<close>

text \<open>
  A one-component problem with the defaults of IDACreate (lines 513-581), used to
  evaluate the functions at concrete inputs.
\<close>

definition mem0 :: IDAMemRec where
  "mem0 = \<lparr>
     ida_uround = 1 / 2 ^ 52, ida_itol = IDA_SS, ida_reltol = 1 / 1000,
     ida_abstol_ss = 0, ida_abstol_sv = [0], ida_maxord = 5, ida_hmax_inv = 0,
     ida_tstop = 0, ida_maxnef = MXNEF, ida_maxncf = MXNCF, ida_maxcor = MAXIT,
     ida_epcon = EPCON,
     ida_suppressalg = False, ida_id = [1],
     ida_phi = [[1], [0], [0], [0], [0], [0]],
     ida_ewt = [1], ida_yy = [0], ida_yp = [0], ida_delta = [0], ida_ee = [0],
     ida_tempv1 = [0], ida_kk = 1, ida_hh = 1, ida_tn = 0, ida_tretp = 0,
     ida_cj = 1, ida_cjlast = 1, ida_nst = 0, ida_nre = 0, ida_ncfn = 0,
     ida_netf = 0, ida_nni = 0, ida_ns = 0, ida_knew = 1, ida_kused = 0,
     ida_hused = 0, ida_phase = 0, ida_epsNewt = EPCON, ida_toldel = 0.0001 * EPCON,
     ida_ss = 20, ida_rr = 0,
     ida_psi = [1, 0, 0, 0, 0, 0], ida_alpha = [0, 0, 0, 0, 0, 0],
     ida_beta = [0, 0, 0, 0, 0, 0], ida_sigma = [0, 0, 0, 0, 0, 0],
     ida_gamma = [0, 0, 0, 0, 0, 0],
     ida_quad = False, ida_errconQ = False,
     ida_phiQ = [[0], [0], [0], [0], [0], [0]],
     ida_ypQ = [0], ida_ewtQ = [1], ida_eeQ = [0],
     ida_sensi = False, ida_errconS = False, ida_Ns = 1, ida_ism = IDA_SIMULTANEOUS,
     ida_iresS = IDA_ONESENS, ida_rhomax = 0, ida_p = [1], ida_pbar = [1],
     ida_plist = None,
     ida_phiS = [[[0]], [[0]], [[0]], [[0]], [[0]], [[0]]],
     ida_ewtS = [[1]], ida_yyS = [[0]], ida_ypS = [[0]], ida_deltaS = [[0]],
     ida_eeS = [[0]], ida_nrSe = 0, ida_nreS = 0 \<rparr>"

subsection \<open>Method coefficients (IDASetCoeffs, lines 3290-3351)\<close>

text \<open>
  The loop of lines 3305-3313 works on the five coefficient arrays and the local
  \<^verbatim>\<open>temp1\<close>; \<open>coeff_regs\<close> holds exactly these. \<open>IDASetCoeffs_iter h i\<close> is one pass of
  the loop body for the index \<open>i\<close> (\<^verbatim>\<open>temp2\<close> is the old \<^verbatim>\<open>psi[i-1]\<close>).
\<close>

record coeff_regs =
  r_psi :: "realtype list"
  r_alpha :: "realtype list"
  r_beta :: "realtype list"
  r_sigma :: "realtype list"
  r_gamma :: "realtype list"
  r_temp1 :: realtype

definition IDASetCoeffs_iter :: "realtype \<Rightarrow> nat \<Rightarrow> coeff_regs \<Rightarrow> coeff_regs" where
  "IDASetCoeffs_iter h i r =
     (let temp2 = r_psi r ! (i - 1);
          psi1 = (r_psi r)[i - 1 := r_temp1 r];
          beta1 = (r_beta r)[i := r_beta r ! (i - 1) * psi1 ! (i - 1) / temp2];
          temp1 = temp2 + h;
          alpha1 = (r_alpha r)[i := h / temp1];
          sigma1 = (r_sigma r)[i := real i * r_sigma r ! (i - 1) * alpha1 ! i];
          gamma1 = (r_gamma r)[i := r_gamma r ! (i - 1) + alpha1 ! (i - 1) / h]
      in \<lparr>r_psi = psi1, r_alpha = alpha1, r_beta = beta1, r_sigma = sigma1,
          r_gamma = gamma1, r_temp1 = temp1\<rparr>)"

text \<open>Lines 3300-3314: the initialisation, the loop for \<open>i = 1..kk\<close> and \<^verbatim>\<open>psi[kk] = temp1\<close>.\<close>

definition IDASetCoeffs_arrays :: "realtype \<Rightarrow> nat \<Rightarrow> coeff_regs \<Rightarrow> coeff_regs" where
  "IDASetCoeffs_arrays h k r =
     (let r0 = \<lparr>r_psi = r_psi r, r_alpha = (r_alpha r)[0 := 1], r_beta = (r_beta r)[0 := 1],
                r_sigma = (r_sigma r)[0 := 1], r_gamma = (r_gamma r)[0 := 0], r_temp1 = h\<rparr>;
          r1 = fold (IDASetCoeffs_iter h) [1..<Suc k] r0
      in r1\<lparr>r_psi := (r_psi r1)[k := r_temp1 r1]\<rparr>)"

text \<open>Lines 3318-3323: \<^verbatim>\<open>alphas\<close> and \<^verbatim>\<open>alpha0\<close>, summed for \<open>i = 0..kk-1\<close>.\<close>

definition IDASetCoeffs_alphas :: "nat \<Rightarrow> realtype" where
  "IDASetCoeffs_alphas k = fold (\<lambda>i a. a - 1 / (real i + 1)) [0..<k] 0"

definition IDASetCoeffs_alpha0 :: "realtype list \<Rightarrow> nat \<Rightarrow> realtype" where
  "IDASetCoeffs_alpha0 al k = fold (\<lambda>i a. a - al ! i) [0..<k] 0"

text \<open>
  The phi-star loops of lines 3336-3346 and their inverses in IDARestore (lines 4267-4277):
  \<^verbatim>\<open>for (i = ns; i <= kk; i++) N_VScale(c[i], phi[i], phi[i])\<close> with \<open>c = beta\<close> or
  \<open>c = 1/beta\<close>, and the same for every sensitivity \<open>is = 0..Ns-1\<close>.
\<close>

definition scale_phi :: "(nat \<Rightarrow> realtype) \<Rightarrow> int \<Rightarrow> int \<Rightarrow> N_Vector list \<Rightarrow> N_Vector list" where
  "scale_phi c ns k ph = fold (\<lambda>i ph. ph[i := N_VScale (c i) (ph ! i)]) [nat ns..<Suc (nat k)] ph"

definition scale_phiS ::
  "(nat \<Rightarrow> realtype) \<Rightarrow> int \<Rightarrow> int \<Rightarrow> int \<Rightarrow> N_Vector list list \<Rightarrow> N_Vector list list" where
  "scale_phiS c Ns ns k phS =
     fold (\<lambda>is phS. fold (\<lambda>i phS. phS[i := (phS ! i)[is := N_VScale (c i) (phS ! i ! is)]])
                          [nat ns..<Suc (nat k)] phS)
          [0..<nat Ns] phS"

text \<open>
  Lines 3297-3298: the counter \<^verbatim>\<open>ns\<close> of consecutive steps at constant step size and
  order, reset when \<^verbatim>\<open>hh\<close> or \<^verbatim>\<open>kk\<close> differ from the values last used.
\<close>

definition IDASetCoeffs_ns :: "IDAMemRec \<Rightarrow> int" where
  "IDASetCoeffs_ns mem =
     (let ns0 = (if ida_hh mem \<noteq> ida_hused mem \<or> ida_kk mem \<noteq> ida_kused mem then 0
                 else ida_ns mem)
      in min (ns0 + 1) (ida_kused mem + 2))"

text \<open>Lines 3299-3315: the arrays are recomputed only if \<^verbatim>\<open>kk+1 >= ns\<close>.\<close>

definition regs_of :: "IDAMemRec \<Rightarrow> coeff_regs" where
  "regs_of mem = \<lparr>r_psi = ida_psi mem, r_alpha = ida_alpha mem, r_beta = ida_beta mem,
                  r_sigma = ida_sigma mem, r_gamma = ida_gamma mem, r_temp1 = 0\<rparr>"

definition IDASetCoeffs_regs :: "IDAMemRec \<Rightarrow> coeff_regs" where
  "IDASetCoeffs_regs mem =
     (if ida_kk mem + 1 \<ge> IDASetCoeffs_ns mem
      then IDASetCoeffs_arrays (ida_hh mem) (nat (ida_kk mem)) (regs_of mem)
      else regs_of mem)"

text \<open>IDASetCoeffs returns the error coefficient \<^verbatim>\<open>*ck\<close> and the updated memory.\<close>

definition IDASetCoeffs :: "IDAMemRec \<Rightarrow> realtype \<times> IDAMemRec" where
  "IDASetCoeffs mem =
     (let ns1 = IDASetCoeffs_ns mem;
          kk = ida_kk mem;
          hh = ida_hh mem;
          r1 = IDASetCoeffs_regs mem;
          alphas = IDASetCoeffs_alphas (nat kk);
          alpha0 = IDASetCoeffs_alpha0 (r_alpha r1) (nat kk);
          ck0 = \<bar>r_alpha r1 ! nat kk + alphas - alpha0\<bar>;
          ck = max ck0 (r_alpha r1 ! nat kk);
          b = (\<lambda>i. r_beta r1 ! i)
      in (ck,
          mem\<lparr>ida_ns := ns1,
              ida_psi := r_psi r1, ida_alpha := r_alpha r1, ida_beta := r_beta r1,
              ida_sigma := r_sigma r1, ida_gamma := r_gamma r1,
              ida_cjlast := ida_cj mem, ida_cj := - alphas / hh,
              ida_phi := scale_phi b ns1 kk (ida_phi mem),
              ida_phiQ := (if ida_quad mem then scale_phi b ns1 kk (ida_phiQ mem)
                           else ida_phiQ mem),
              ida_phiS := (if ida_sensi mem
                           then scale_phiS b (ida_Ns mem) ns1 kk (ida_phiS mem)
                           else ida_phiS mem),
              ida_tn := ida_tn mem + hh\<rparr>))"

text \<open>
  The recurrences of the loop in closed form, for the statement of its invariant:
  \<open>psi_rec h ps j\<close> is the new \<^verbatim>\<open>psi[j]\<close> computed from the step size \<open>h\<close> and the old
  array \<open>ps\<close>, and likewise for the other arrays.
\<close>

fun psi_rec :: "realtype \<Rightarrow> realtype list \<Rightarrow> nat \<Rightarrow> realtype" where
  "psi_rec h ps 0 = h"
| "psi_rec h ps (Suc j) = ps ! j + h"

fun alpha_rec :: "realtype \<Rightarrow> realtype list \<Rightarrow> nat \<Rightarrow> realtype" where
  "alpha_rec h ps 0 = 1"
| "alpha_rec h ps (Suc j) = h / psi_rec h ps (Suc j)"

fun beta_rec :: "realtype \<Rightarrow> realtype list \<Rightarrow> nat \<Rightarrow> realtype" where
  "beta_rec h ps 0 = 1"
| "beta_rec h ps (Suc i) = beta_rec h ps i * psi_rec h ps i / ps ! i"

fun sigma_rec :: "realtype \<Rightarrow> realtype list \<Rightarrow> nat \<Rightarrow> realtype" where
  "sigma_rec h ps 0 = 1"
| "sigma_rec h ps (Suc i) = real (Suc i) * sigma_rec h ps i * alpha_rec h ps (Suc i)"

fun gamma_rec :: "realtype \<Rightarrow> realtype list \<Rightarrow> nat \<Rightarrow> realtype" where
  "gamma_rec h ps 0 = 0"
| "gamma_rec h ps (Suc i) = gamma_rec h ps i + alpha_rec h ps i / h"

text \<open>
  The state of the loop after the passes \<open>i = 1..k\<close>, started on \<open>r\<close>: the entries up to
  \<open>k\<close> follow the recurrences, the others are those of \<open>r\<close>.
\<close>

definition coeff_inv :: "realtype \<Rightarrow> coeff_regs \<Rightarrow> nat \<Rightarrow> coeff_regs \<Rightarrow> bool" where
  "coeff_inv h r k r' \<longleftrightarrow>
     r_temp1 r' = psi_rec h (r_psi r) k \<and>
     length (r_psi r') = length (r_psi r) \<and>
     length (r_alpha r') = length (r_alpha r) \<and>
     length (r_beta r') = length (r_beta r) \<and>
     length (r_sigma r') = length (r_sigma r) \<and>
     length (r_gamma r') = length (r_gamma r) \<and>
     (\<forall>j<length (r_psi r). r_psi r' ! j = (if j < k then psi_rec h (r_psi r) j else r_psi r ! j)) \<and>
     (\<forall>i<length (r_alpha r). r_alpha r' ! i = (if i \<le> k then alpha_rec h (r_psi r) i else r_alpha r ! i)) \<and>
     (\<forall>i<length (r_beta r). r_beta r' ! i = (if i \<le> k then beta_rec h (r_psi r) i else r_beta r ! i)) \<and>
     (\<forall>i<length (r_sigma r). r_sigma r' ! i = (if i \<le> k then sigma_rec h (r_psi r) i else r_sigma r ! i)) \<and>
     (\<forall>i<length (r_gamma r). r_gamma r' ! i = (if i \<le> k then gamma_rec h (r_psi r) i else r_gamma r ! i))"

text \<open>The five arrays have an entry of index \<open>k\<close> (in C they have \<^verbatim>\<open>MXORDP1\<close> entries).\<close>

definition coeff_wide :: "coeff_regs \<Rightarrow> nat \<Rightarrow> bool" where
  "coeff_wide r k \<longleftrightarrow> k < length (r_psi r) \<and> k < length (r_alpha r) \<and> k < length (r_beta r) \<and>
     k < length (r_sigma r) \<and> k < length (r_gamma r)"


subsection \<open>Restoring after a failed attempt (IDARestore, lines 4258-4279)\<close>

definition IDARestore_psi :: "realtype \<Rightarrow> nat \<Rightarrow> realtype list \<Rightarrow> realtype list" where
  "IDARestore_psi h k ps = fold (\<lambda>j ps. ps[j - 1 := ps ! j - h]) [1..<Suc k] ps"

definition IDARestore :: "IDAMemRec \<Rightarrow> realtype \<Rightarrow> IDAMemRec" where
  "IDARestore mem saved_t =
     (let kk = ida_kk mem;
          ns = ida_ns mem;
          b = (\<lambda>j. 1 / ida_beta mem ! j)
      in mem\<lparr>ida_tn := saved_t,
             ida_psi := IDARestore_psi (ida_hh mem) (nat kk) (ida_psi mem),
             ida_phi := scale_phi b ns kk (ida_phi mem),
             ida_phiQ := (if ida_quad mem then scale_phi b ns kk (ida_phiQ mem)
                          else ida_phiQ mem),
             ida_phiS := (if ida_sensi mem
                          then scale_phiS b (ida_Ns mem) ns kk (ida_phiS mem)
                          else ida_phiS mem)\<rparr>)"

subsection \<open>Combined norms (lines 4659-4730)\<close>

definition IDAWrmsNorm :: "IDAMemRec \<Rightarrow> N_Vector \<Rightarrow> N_Vector \<Rightarrow> bool \<Rightarrow> realtype" where
  "IDAWrmsNorm mem x w msk =
     (if msk then N_VWrmsNormMask x w (ida_id mem) else N_VWrmsNorm x w)"

definition IDAQuadWrmsNormUpdate :: "realtype \<Rightarrow> N_Vector \<Rightarrow> N_Vector \<Rightarrow> realtype" where
  "IDAQuadWrmsNormUpdate old_nrm xQ wQ =
     (let qnrm = N_VWrmsNorm xQ wQ in if old_nrm > qnrm then old_nrm else qnrm)"

definition IDASensWrmsNorm ::
  "IDAMemRec \<Rightarrow> N_Vector list \<Rightarrow> N_Vector list \<Rightarrow> bool \<Rightarrow> realtype" where
  "IDASensWrmsNorm mem xS wS msk =
     fold (\<lambda>is nrm. let snrm = IDAWrmsNorm mem (xS ! is) (wS ! is) msk
                     in if snrm > nrm then snrm else nrm)
          [1..<nat (ida_Ns mem)]
          (IDAWrmsNorm mem (xS ! 0) (wS ! 0) msk)"

definition IDASensWrmsNormUpdate ::
  "IDAMemRec \<Rightarrow> realtype \<Rightarrow> N_Vector list \<Rightarrow> N_Vector list \<Rightarrow> bool \<Rightarrow> realtype" where
  "IDASensWrmsNormUpdate mem old_nrm xS wS msk =
     (let snrm = IDASensWrmsNorm mem xS wS msk in if old_nrm > snrm then old_nrm else snrm)"

subsection \<open>The local error test (IDATestError, lines 3990-4047)\<close>

text \<open>
  The three norms of lines 4003-4036: \<open>enorm_k\<close> of \<^verbatim>\<open>ee\<close>, \<open>enorm_km1\<close> of
  \<^verbatim>\<open>delta = phi[kk] + ee\<close> and \<open>enorm_km2\<close> of \<^verbatim>\<open>delta = phi[kk-1] + delta\<close>, each joined with
  the sensitivity norm when \<^verbatim>\<open>sensi_sim\<close> holds.
\<close>

definition sensi_sim_err :: "IDAMemRec \<Rightarrow> bool" where
  "sensi_sim_err mem \<longleftrightarrow> ida_sensi mem \<and> ida_ism mem = IDA_SIMULTANEOUS \<and> ida_errconS mem"

definition add_phiS_row :: "int \<Rightarrow> N_Vector list \<Rightarrow> N_Vector list \<Rightarrow> N_Vector list \<Rightarrow> N_Vector list" where
  "add_phiS_row Ns row xS dS =
     fold (\<lambda>is dS. dS[is := N_VLinearSum 1 (row ! is) 1 (xS ! is)]) [0..<nat Ns] dS"

definition IDATestError_enorm_k :: "IDAMemRec \<Rightarrow> realtype" where
  "IDATestError_enorm_k mem =
     (let e = IDAWrmsNorm mem (ida_ee mem) (ida_ewt mem) (ida_suppressalg mem)
      in if sensi_sim_err mem
         then IDASensWrmsNormUpdate mem e (ida_eeS mem) (ida_ewtS mem) (ida_suppressalg mem)
         else e)"

definition IDATestError_delta1 :: "IDAMemRec \<Rightarrow> IDAMemRec" where
  "IDATestError_delta1 mem =
     mem\<lparr>ida_delta := N_VLinearSum 1 (ida_phi mem ! nat (ida_kk mem)) 1 (ida_ee mem),
         ida_deltaS := (if sensi_sim_err mem
                        then add_phiS_row (ida_Ns mem) (ida_phiS mem ! nat (ida_kk mem))
                               (ida_eeS mem) (ida_deltaS mem)
                        else ida_deltaS mem)\<rparr>"

definition IDATestError_delta2 :: "IDAMemRec \<Rightarrow> IDAMemRec" where
  "IDATestError_delta2 mem =
     mem\<lparr>ida_delta := N_VLinearSum 1 (ida_phi mem ! nat (ida_kk mem - 1)) 1 (ida_delta mem),
         ida_deltaS := (if sensi_sim_err mem
                        then add_phiS_row (ida_Ns mem) (ida_phiS mem ! nat (ida_kk mem - 1))
                               (ida_deltaS mem) (ida_deltaS mem)
                        else ida_deltaS mem)\<rparr>"

definition IDATestError_enorm_delta :: "IDAMemRec \<Rightarrow> realtype" where
  "IDATestError_enorm_delta mem =
     (let e = IDAWrmsNorm mem (ida_delta mem) (ida_ewt mem) (ida_suppressalg mem)
      in if sensi_sim_err mem
         then IDASensWrmsNormUpdate mem e (ida_deltaS mem) (ida_ewtS mem) (ida_suppressalg mem)
         else e)"

text \<open>
  The order decision of lines 4009-4042 from the three error estimates: the new order
  \<^verbatim>\<open>knew\<close> and the estimate \<^verbatim>\<open>*est\<close>.
\<close>

definition IDATestError_knew ::
  "int \<Rightarrow> realtype \<Rightarrow> realtype \<Rightarrow> realtype \<Rightarrow> int \<times> realtype" where
  "IDATestError_knew kk erk erkm1 erkm2 =
     (let terk = real_of_int (kk + 1) * erk;
          terkm1 = real_of_int kk * erkm1;
          terkm2 = real_of_int (kk - 1) * erkm2;
          (knew1, est1) = (if kk = 2 \<and> terkm1 \<le> 0.5 * terk then (kk - 1, erkm1) else (kk, erk))
      in if kk > 2 \<and> max terkm1 terkm2 \<le> terk then (kk - 1, erkm1) else (knew1, est1))"

text \<open>
  IDATestError returns its flag, the out-parameters \<^verbatim>\<open>*est\<close>, \<^verbatim>\<open>*erk\<close>, \<^verbatim>\<open>*erkm1\<close> and the
  memory. \<^verbatim>\<open>*erkm1\<close> is written only if \<^verbatim>\<open>kk > 1\<close>; \<open>erkm1_in\<close> is the value the caller's
  variable holds otherwise.
\<close>

definition IDATestError ::
  "IDAMemRec \<Rightarrow> realtype \<Rightarrow> realtype \<Rightarrow> int \<times> realtype \<times> realtype \<times> realtype \<times> IDAMemRec" where
  "IDATestError mem ck erkm1_in =
     (let kk = ida_kk mem;
          enorm_k = IDATestError_enorm_k mem;
          erk = ida_sigma mem ! nat kk * enorm_k;
          flag = (if ck * enorm_k > 1 then ERROR_TEST_FAIL else IDA_SUCCESS)
      in if kk > 1
         then (let mem1 = IDATestError_delta1 mem;
                   erkm1 = ida_sigma mem ! nat (kk - 1) * IDATestError_enorm_delta mem1;
                   mem2 = (if kk > 2 then IDATestError_delta2 mem1 else mem1);
                   erkm2 = ida_sigma mem ! nat (kk - 2) * IDATestError_enorm_delta mem2;
                   (knew, est) = IDATestError_knew kk erk erkm1 erkm2
               in (flag, est, erk, erkm1, mem2\<lparr>ida_knew := knew\<rparr>))
         else (flag, erk, erk, erkm1_in, mem\<lparr>ida_knew := kk\<rparr>))"

subsection \<open>Handling a failed attempt (IDAHandleNFlag, lines 4366-4456)\<close>

text \<open>
  The two halves of the routine, after \<^verbatim>\<open>phase = 1\<close>. Each returns the flag \<^verbatim>\<open>kflag\<close>, the
  memory and the counters \<^verbatim>\<open>*ncfPtr\<close>, \<^verbatim>\<open>*nefPtr\<close>.
\<close>

definition IDAHandleNFlag_nls :: "IDAMemRec \<Rightarrow> int \<Rightarrow> int \<Rightarrow> int \<Rightarrow> int \<times> IDAMemRec \<times> int \<times> int" where
  "IDAHandleNFlag_nls mem nflag ncf nef =
     (let mem1 = mem\<lparr>ida_ncfn := ida_ncfn mem + 1\<rparr>
      in if nflag < 0 then (nflag, mem1, ncf, nef)
         else (let ncf1 = ncf + 1;
                   rr = (if nflag \<noteq> IDA_CONSTR_RECVR then 0.25 else ida_rr mem1);
                   mem2 = mem1\<lparr>ida_rr := rr, ida_hh := ida_hh mem1 * rr\<rparr>;
                   kflag = (if ncf1 < ida_maxncf mem2 then PREDICT_AGAIN
                            else if nflag = IDA_RES_RECVR then IDA_REP_RES_ERR
                            else if nflag = IDA_CONSTR_RECVR then IDA_CONSTR_FAIL
                            else IDA_CONV_FAIL)
               in (kflag, mem2, ncf1, nef)))"

definition IDAHandleNFlag_etf :: "IDAMemRec \<Rightarrow> int \<Rightarrow> int \<Rightarrow> realtype \<Rightarrow> int \<times> IDAMemRec \<times> int \<times> int" where
  "IDAHandleNFlag_etf mem ncf nef est =
     (let nef1 = nef + 1;
          mem1 = mem\<lparr>ida_netf := ida_netf mem + 1\<rparr>
      in if nef1 = 1
         then (let kk = ida_knew mem1;
                   rr0 = 0.9 * RPowerR (2 * est + 0.0001) (- 1 / real_of_int (kk + 1));
                   rr = max 0.25 (min 0.9 rr0)
               in (PREDICT_AGAIN,
                   mem1\<lparr>ida_kk := kk, ida_rr := rr, ida_hh := ida_hh mem1 * rr\<rparr>, ncf, nef1))
         else if nef1 = 2
         then (PREDICT_AGAIN,
               mem1\<lparr>ida_kk := ida_knew mem1, ida_rr := 0.25, ida_hh := ida_hh mem1 * 0.25\<rparr>,
               ncf, nef1)
         else if nef1 < ida_maxnef mem1
         then (PREDICT_AGAIN,
               mem1\<lparr>ida_kk := 1, ida_rr := 0.25, ida_hh := ida_hh mem1 * 0.25\<rparr>, ncf, nef1)
         else (IDA_ERR_FAIL, mem1, ncf, nef1))"

definition IDAHandleNFlag ::
  "IDAMemRec \<Rightarrow> int \<Rightarrow> int \<Rightarrow> int \<Rightarrow> realtype \<Rightarrow> int \<times> IDAMemRec \<times> int \<times> int" where
  "IDAHandleNFlag mem nflag ncf nef est =
     (let mem1 = mem\<lparr>ida_phase := 1\<rparr>
      in if nflag \<noteq> ERROR_TEST_FAIL then IDAHandleNFlag_nls mem1 nflag ncf nef
         else IDAHandleNFlag_etf mem1 ncf nef est)"

subsection \<open>Completing a step (IDACompleteStep, lines 4489-4640)\<close>

text \<open>
  Lines 4537-4557: the error estimate at order \<open>k+1\<close>, the maximum over the state, the
  quadratures (if \<^verbatim>\<open>errconQ\<close>) and each sensitivity (if \<^verbatim>\<open>errconS\<close>). The differences are
  formed in \<^verbatim>\<open>tempv1\<close> and in \<^verbatim>\<open>tempvQ = ypQ\<close>; the result is \<^verbatim>\<open>error_kp1\<close> with the final
  contents of \<^verbatim>\<open>tempv1\<close> and \<^verbatim>\<open>ypQ\<close>.
\<close>

definition IDACompleteStep_kp1 :: "IDAMemRec \<Rightarrow> realtype \<times> N_Vector \<times> N_Vector" where
  "IDACompleteStep_kp1 mem =
     (let kk = ida_kk mem;
          k1 = nat (kk + 1);
          tempv1 = N_VLinearSum 1 (ida_ee mem) (- 1) (ida_phi mem ! k1);
          temp = IDAWrmsNorm mem tempv1 (ida_ewt mem) (ida_suppressalg mem);
          erkp1 = temp / real_of_int (kk + 2);
          tempvQ = (if ida_errconQ mem
                    then N_VLinearSum 1 (ida_eeQ mem) (- 1) (ida_phiQ mem ! k1)
                    else ida_ypQ mem);
          erQkp1 = N_VWrmsNorm tempvQ (ida_ewtQ mem) / real_of_int (kk + 2);
          error_kp1 = (if ida_errconQ mem \<and> erQkp1 > erkp1 then erQkp1 else erkp1);
          (error_kp1S, tempv1S) =
            (if ida_errconS mem
             then fold (\<lambda>is (e, tv).
                          let tv1 = N_VLinearSum 1 (ida_eeS mem ! is) (- 1) (ida_phiS mem ! k1 ! is);
                              temp = IDAWrmsNorm mem tv1 (ida_ewtS mem ! is) (ida_suppressalg mem);
                              erSkp1 = temp / real_of_int (kk + 2)
                          in (if erSkp1 > e then erSkp1 else e, tv1))
                       [0..<nat (ida_Ns mem)] (error_kp1, tempv1)
             else (error_kp1, tempv1))
      in (error_kp1S, tempv1S, tempvQ))"

text \<open>
  Lines 4529-4531: the three tests that settle the order without the estimate at order
  \<open>k+1\<close>. \<open>IDACompleteStep_estimates\<close> holds when none of them fires, that is when the
  estimate is computed.
\<close>

definition IDACompleteStep_estimates :: "IDAMemRec \<Rightarrow> int \<Rightarrow> bool" where
  "IDACompleteStep_estimates mem kdiff \<longleftrightarrow>
     \<not> ida_knew mem = ida_kk mem - 1 \<and> \<not> ida_kk mem = ida_maxord mem \<and>
     \<not> (ida_kk mem + 1 \<ge> ida_ns mem \<or> kdiff = 1)"

text \<open>Lines 4529-4572: the order decision; \<open>error_kp1\<close> is read in the last branch only.\<close>

definition IDACompleteStep_action ::
  "IDAMemRec \<Rightarrow> int \<Rightarrow> realtype \<Rightarrow> realtype \<Rightarrow> realtype \<Rightarrow> order_action" where
  "IDACompleteStep_action mem kdiff error_k error_km1 error_kp1 =
     (let kk = ida_kk mem
      in if ida_knew mem = kk - 1 then LOWER
         else if kk = ida_maxord mem then MAINTAIN
         else if kk + 1 \<ge> ida_ns mem \<or> kdiff = 1 then MAINTAIN
         else (let terk = real_of_int (kk + 1) * error_k;
                   terkp1 = real_of_int (kk + 2) * error_kp1
               in if kk = 1
                  then (if terkp1 \<ge> 0.5 * terk then MAINTAIN else RAISE)
                  else (let terkm1 = real_of_int kk * error_km1
                        in if terkm1 \<le> min terk terkp1 then LOWER
                           else if terkp1 \<ge> terk then MAINTAIN
                           else RAISE)))"

text \<open>Lines 4585-4596: the new step size from the ratio \<open>rr\<close>; returns \<open>(rr, hnew)\<close>.\<close>

definition IDACompleteStep_hnew :: "realtype \<Rightarrow> realtype \<Rightarrow> realtype \<Rightarrow> realtype \<times> realtype" where
  "IDACompleteStep_hnew hh hmax_inv rr =
     (if rr \<ge> 2
      then (let hnew = 2 * hh; temp = \<bar>hnew\<bar> * hmax_inv
            in (rr, if temp > 1 then hnew / temp else hnew))
      else if rr \<le> 1
      then (let rr1 = max 0.5 (min 0.9 rr) in (rr1, hh * rr1))
      else (rr, hh))"

text \<open>Lines 4525-4596: the branch \<^verbatim>\<open>phase != 0\<close>.\<close>

definition IDACompleteStep_select :: "IDAMemRec \<Rightarrow> int \<Rightarrow> realtype \<Rightarrow> realtype \<Rightarrow> IDAMemRec" where
  "IDACompleteStep_select mem kdiff error_k error_km1 =
     (let (error_kp1, tempv1, tempvQ) = IDACompleteStep_kp1 mem;
          mem1 = (if IDACompleteStep_estimates mem kdiff
                  then mem\<lparr>ida_tempv1 := tempv1, ida_ypQ := tempvQ\<rparr> else mem);
          action = IDACompleteStep_action mem kdiff error_k error_km1 error_kp1;
          (kk, est) = (if action = RAISE then (ida_kk mem + 1, error_kp1)
                       else if action = LOWER then (ida_kk mem - 1, error_km1)
                       else (ida_kk mem, error_k));
          rr = RPowerR (2 * est + 0.0001) (- 1 / real_of_int (kk + 1));
          (rr1, hnew) = IDACompleteStep_hnew (ida_hh mem) (ida_hmax_inv mem) rr
      in mem1\<lparr>ida_kk := kk, ida_rr := rr1, ida_hh := hnew\<rparr>)"

text \<open>
  Lines 4602-4637 for one history array: \<^verbatim>\<open>phi[kused+1] = ee\<close> if \<open>save\<close> holds, then
  \<^verbatim>\<open>phi[kused] += ee\<close> and \<^verbatim>\<open>phi[j] += phi[j+1]\<close> for \<open>j = kused-1\<close> down to \<open>0\<close>.
\<close>

definition update_phi :: "bool \<Rightarrow> nat \<Rightarrow> N_Vector \<Rightarrow> N_Vector list \<Rightarrow> N_Vector list" where
  "update_phi save ku e ph =
     (let ph1 = (if save then ph[Suc ku := N_VScale 1 e] else ph);
          ph2 = ph1[ku := N_VLinearSum 1 e 1 (ph1 ! ku)]
      in fold (\<lambda>j ph. ph[j := N_VLinearSum 1 (ph ! j) 1 (ph ! Suc j)]) (rev [0..<ku]) ph2)"

definition update_phiS ::
  "bool \<Rightarrow> bool \<Rightarrow> nat \<Rightarrow> nat \<Rightarrow> N_Vector list \<Rightarrow> N_Vector list list \<Rightarrow> N_Vector list list" where
  "update_phiS save upd n ku eS phS =
     (let phS1 = (if save
                  then fold (\<lambda>is phS. phS[Suc ku := (phS ! Suc ku)[is := N_VScale 1 (eS ! is)]])
                            [0..<n] phS
                  else phS)
      in if upd
         then fold (\<lambda>is phS.
                let phS2 = phS[ku := (phS ! ku)[is := N_VLinearSum 1 (eS ! is) 1 (phS ! ku ! is)]]
                in fold (\<lambda>j phS. phS[j := (phS ! j)[is :=
                                        N_VLinearSum 1 (phS ! j ! is) 1 (phS ! Suc j ! is)]])
                        (rev [0..<ku]) phS2)
              [0..<n] phS1
         else phS1)"

definition IDACompleteStep_phi :: "IDAMemRec \<Rightarrow> IDAMemRec" where
  "IDACompleteStep_phi mem =
     (let ku = nat (ida_kused mem);
          save = ida_kused mem < ida_maxord mem
      in mem\<lparr>ida_phi := update_phi save ku (ida_ee mem) (ida_phi mem),
             ida_phiQ := (let phQ = (if save \<and> ida_errconQ mem
                                      then (ida_phiQ mem)[Suc ku := N_VScale 1 (ida_eeQ mem)]
                                      else ida_phiQ mem)
                          in if ida_quad mem then update_phi False ku (ida_eeQ mem) phQ else phQ),
             ida_phiS := update_phiS (save \<and> ida_errconS mem) (ida_sensi mem)
                           (nat (ida_Ns mem)) ku (ida_eeS mem) (ida_phiS mem)\<rparr>)"

text \<open>
  Lines 4499-4521: the counters, the phase and, in phase 0, the raise of the order with
  the doubling of the step size.
\<close>

definition IDACompleteStep_begin :: "IDAMemRec \<Rightarrow> IDAMemRec" where
  "IDACompleteStep_begin mem =
     (let mem1 = mem\<lparr>ida_nst := ida_nst mem + 1, ida_kused := ida_kk mem,
                     ida_hused := ida_hh mem\<rparr>
      in if ida_knew mem1 = ida_kk mem1 - 1 \<or> ida_kk mem1 = ida_maxord mem1
         then mem1\<lparr>ida_phase := 1\<rparr> else mem1)"

definition IDACompleteStep :: "IDAMemRec \<Rightarrow> realtype \<Rightarrow> realtype \<Rightarrow> IDAMemRec" where
  "IDACompleteStep mem error_k error_km1 =
     (let kdiff = ida_kk mem - ida_kused mem;
          mem1 = IDACompleteStep_begin mem;
          mem2 = (if ida_phase mem1 = 0
                  then (if ida_nst mem1 > 1
                        then mem1\<lparr>ida_kk := ida_kk mem1 + 1, ida_hh := 2 * ida_hh mem1\<rparr>
                        else mem1)
                  else IDACompleteStep_select mem1 kdiff error_k error_km1)
      in IDACompleteStep_phi mem2)"

subsection \<open>The first step size (IDASolve, lines 1477-1515)\<close>


subsection \<open>Dense output (IDAGetSolution, lines 1657-1700)\<close>

text \<open>
  The loop of lines 1691-1697 works on the locals \<^verbatim>\<open>c\<close>, \<^verbatim>\<open>d\<close>, \<^verbatim>\<open>gam\<close> and the two output
  vectors. The memory is given, so the test for a \<^verbatim>\<open>NULL\<close> pointer has no counterpart.
  The result is the flag with the contents of \<^verbatim>\<open>yret\<close> and \<^verbatim>\<open>ypret\<close>, which are left as
  they were on \<^verbatim>\<open>IDA_BAD_T\<close>.
\<close>

record interp_regs =
  i_c :: realtype
  i_d :: realtype
  i_gam :: realtype
  i_yret :: N_Vector
  i_ypret :: N_Vector

definition IDAGetSolution_iter ::
  "realtype list \<Rightarrow> N_Vector list \<Rightarrow> realtype \<Rightarrow> nat \<Rightarrow> interp_regs \<Rightarrow> interp_regs" where
  "IDAGetSolution_iter psi phi delt j r =
     (let d = i_d r * i_gam r + i_c r / psi ! (j - 1);
          c = i_c r * i_gam r;
          gam = (delt + psi ! (j - 1)) / psi ! j
      in \<lparr>i_c = c, i_d = d, i_gam = gam,
          i_yret = N_VLinearSum 1 (i_yret r) c (phi ! j),
          i_ypret = N_VLinearSum 1 (i_ypret r) d (phi ! j)\<rparr>)"

definition IDAGetSolution_kord :: "IDAMemRec \<Rightarrow> int" where
  "IDAGetSolution_kord mem = (if ida_kused mem = 0 then 1 else ida_kused mem)"

definition IDAGetSolution ::
  "IDAMemRec \<Rightarrow> realtype \<Rightarrow> N_Vector \<Rightarrow> N_Vector \<Rightarrow> int \<times> N_Vector \<times> N_Vector" where
  "IDAGetSolution mem t yret ypret =
     (let tfuzz = 100 * ida_uround mem * (ida_tn mem + ida_hh mem);
          tp = ida_tn mem - ida_hused mem - tfuzz
      in if (t - tp) * ida_hh mem < 0 then (IDA_BAD_T, yret, ypret)
         else (let kord = IDAGetSolution_kord mem;
                   delt = t - ida_tn mem;
                   r0 = \<lparr>i_c = 1, i_d = 0, i_gam = delt / ida_psi mem ! 0,
                         i_yret = N_VScale 1 (ida_phi mem ! 0), i_ypret = N_VConst 0 ypret\<rparr>;
                   r = fold (IDAGetSolution_iter (ida_psi mem) (ida_phi mem) delt)
                         [1..<Suc (nat kord)] r0
               in (IDA_SUCCESS, i_yret r, i_ypret r)))"

subsection \<open>Stop tests (IDAStopTest1, lines 2805-2898; IDAStopTest2, lines 2921-2973)\<close>











subsection \<open>Sensitivity residuals by difference quotients (IDASensRes1DQ, lines 4849-5055)\<close>

text \<open>
  The user's residual function \<^verbatim>\<open>res(t, y, yp, out, rdata)\<close> reads the parameter array
  through \<^verbatim>\<open>rdata\<close>; the array is the one the memory's \<^verbatim>\<open>p\<close> points to. In the model
  the residual function takes the array as its first argument and returns its flag with
  the new content of \<^verbatim>\<open>out\<close> (its last argument is the old content).

  \<open>dq_state\<close> holds what IDASensRes1DQ writes: the memory (\<^verbatim>\<open>p\<close>, \<^verbatim>\<open>nre\<close>, \<^verbatim>\<open>nreS\<close>), the
  output \<^verbatim>\<open>resvalS\<close> and the three temporaries, taken to be distinct vectors, as in the
  calls from IDASensResDQ. The index \<^verbatim>\<open>is\<close> is a natural number and the entries of
  \<^verbatim>\<open>plist\<close> are nonzero, so that \<^verbatim>\<open>which\<close> is not negative.
\<close>

type_synonym IDAResFn =
  "realtype list \<Rightarrow> realtype \<Rightarrow> N_Vector \<Rightarrow> N_Vector \<Rightarrow> N_Vector \<Rightarrow> int \<times> N_Vector"

record dq_state =
  dq_mem :: IDAMemRec
  dq_resvalS :: N_Vector
  dq_ytemp :: N_Vector
  dq_yptemp :: N_Vector
  dq_restemp :: N_Vector

text \<open>\<^verbatim>\<open>p[which] = v\<close>.\<close>

definition set_p :: "nat \<Rightarrow> realtype \<Rightarrow> dq_state \<Rightarrow> dq_state" where
  "set_p which v s = s\<lparr>dq_mem := (dq_mem s)\<lparr>ida_p := (ida_p (dq_mem s))[which := v]\<rparr>\<rparr>"

text \<open>\<^verbatim>\<open>nre++; nreS++;\<close> after each call of the residual function.\<close>

definition count_res :: "dq_state \<Rightarrow> dq_state" where
  "count_res s =
     s\<lparr>dq_mem := (dq_mem s)\<lparr>ida_nre := ida_nre (dq_mem s) + 1,
                             ida_nreS := ida_nreS (dq_mem s) + 1\<rparr>\<rparr>"

text \<open>
  The four cases of the \<^verbatim>\<open>switch\<close>. A case gives \<open>Inl (ier, s)\<close> when it leaves the
  function through \<^verbatim>\<open>if (ier != 0) return(ier)\<close>, and \<open>Inr s\<close> when it reaches its
  \<^verbatim>\<open>break\<close>.
\<close>

definition IDASensRes1DQ_centered1 ::
  "IDAResFn \<Rightarrow> realtype \<Rightarrow> N_Vector \<Rightarrow> N_Vector \<Rightarrow> N_Vector \<Rightarrow> N_Vector \<Rightarrow> nat \<Rightarrow>
   realtype \<Rightarrow> realtype \<Rightarrow> realtype \<Rightarrow> dq_state \<Rightarrow> (int \<times> dq_state) + dq_state" where
  "IDASensRes1DQ_centered1 res t yy yp yyS ypS which psave Dely Delp s =
     (let Del = min Dely Delp; r2Del = (1 / 2) / Del;
          s1 = set_p which (psave + Del)
                 (s\<lparr>dq_ytemp := N_VLinearSum Del yyS 1 yy,
                    dq_yptemp := N_VLinearSum Del ypS 1 yp\<rparr>);
          r1 = res (ida_p (dq_mem s1)) t (dq_ytemp s1) (dq_yptemp s1) (dq_resvalS s1);
          s2 = count_res (s1\<lparr>dq_resvalS := snd r1\<rparr>)
      in if fst r1 \<noteq> 0 then Inl (fst r1, s2)
         else
          (let s3 = set_p which (psave - Del)
                      (s2\<lparr>dq_ytemp := N_VLinearSum (- Del) yyS 1 yy,
                          dq_yptemp := N_VLinearSum (- Del) ypS 1 yp\<rparr>);
               r2 = res (ida_p (dq_mem s3)) t (dq_ytemp s3) (dq_yptemp s3) (dq_restemp s3);
               s4 = count_res (s3\<lparr>dq_restemp := snd r2\<rparr>)
           in if fst r2 \<noteq> 0 then Inl (fst r2, s4)
              else Inr (s4\<lparr>dq_resvalS :=
                     N_VLinearSum r2Del (dq_resvalS s4) (- r2Del) (dq_restemp s4)\<rparr>)))"

definition IDASensRes1DQ_centered2_FP ::
  "IDAResFn \<Rightarrow> realtype \<Rightarrow> N_Vector \<Rightarrow> N_Vector \<Rightarrow> nat \<Rightarrow>
   realtype \<Rightarrow> realtype \<Rightarrow> dq_state \<Rightarrow> (int \<times> dq_state) + dq_state" where
  "IDASensRes1DQ_centered2_FP res t yy yp which psave Delp s =
     (let r2Delp = (1 / 2) / Delp;
          s1 = set_p which (psave + Delp) s;
          r1 = res (ida_p (dq_mem s1)) t yy yp (dq_ytemp s1);
          s2 = count_res (s1\<lparr>dq_ytemp := snd r1\<rparr>)
      in if fst r1 \<noteq> 0 then Inl (fst r1, s2)
         else
          (let s3 = set_p which (psave - Delp) s2;
               r2 = res (ida_p (dq_mem s3)) t yy yp (dq_yptemp s3);
               s4 = count_res (s3\<lparr>dq_yptemp := snd r2\<rparr>)
           in if fst r2 \<noteq> 0 then Inl (fst r2, s4)
              else
               (let s5 = s4\<lparr>dq_restemp :=
                           N_VLinearSum r2Delp (dq_ytemp s4) (- r2Delp) (dq_yptemp s4)\<rparr>
                in Inr (s5\<lparr>dq_resvalS :=
                          N_VLinearSum 1 (dq_resvalS s5) 1 (dq_restemp s5)\<rparr>))))"

definition IDASensRes1DQ_centered2 ::
  "IDAResFn \<Rightarrow> realtype \<Rightarrow> N_Vector \<Rightarrow> N_Vector \<Rightarrow> N_Vector \<Rightarrow> N_Vector \<Rightarrow> nat \<Rightarrow> bool \<Rightarrow>
   realtype \<Rightarrow> realtype \<Rightarrow> realtype \<Rightarrow> dq_state \<Rightarrow> (int \<times> dq_state) + dq_state" where
  "IDASensRes1DQ_centered2 res t yy yp yyS ypS which skipFP psave Dely Delp s =
     (let r2Dely = (1 / 2) / Dely;
          s1 = s\<lparr>dq_ytemp := N_VLinearSum Dely yyS 1 yy,
                 dq_yptemp := N_VLinearSum Dely ypS 1 yp\<rparr>;
          r1 = res (ida_p (dq_mem s1)) t (dq_ytemp s1) (dq_yptemp s1) (dq_resvalS s1);
          s2 = count_res (s1\<lparr>dq_resvalS := snd r1\<rparr>)
      in if fst r1 \<noteq> 0 then Inl (fst r1, s2)
         else
          (let s3 = s2\<lparr>dq_ytemp := N_VLinearSum (- Dely) yyS 1 yy,
                      dq_yptemp := N_VLinearSum (- Dely) ypS 1 yp\<rparr>;
               r2 = res (ida_p (dq_mem s3)) t (dq_ytemp s3) (dq_yptemp s3) (dq_restemp s3);
               s4 = count_res (s3\<lparr>dq_restemp := snd r2\<rparr>)
           in if fst r2 \<noteq> 0 then Inl (fst r2, s4)
              else
               (let s5 = s4\<lparr>dq_resvalS :=
                           N_VLinearSum r2Dely (dq_resvalS s4) (- r2Dely) (dq_restemp s4)\<rparr>
                in if \<not> skipFP then IDASensRes1DQ_centered2_FP res t yy yp which psave Delp s5
                   else Inr s5)))"

definition IDASensRes1DQ_forward1 ::
  "IDAResFn \<Rightarrow> realtype \<Rightarrow> N_Vector \<Rightarrow> N_Vector \<Rightarrow> N_Vector \<Rightarrow> N_Vector \<Rightarrow> N_Vector \<Rightarrow> nat \<Rightarrow>
   realtype \<Rightarrow> realtype \<Rightarrow> realtype \<Rightarrow> dq_state \<Rightarrow> (int \<times> dq_state) + dq_state" where
  "IDASensRes1DQ_forward1 res t yy yp resval yyS ypS which psave Dely Delp s =
     (let Del = min Dely Delp; rDel = 1 / Del;
          s1 = set_p which (psave + Del)
                 (s\<lparr>dq_ytemp := N_VLinearSum Del yyS 1 yy,
                    dq_yptemp := N_VLinearSum Del ypS 1 yp\<rparr>);
          r1 = res (ida_p (dq_mem s1)) t (dq_ytemp s1) (dq_yptemp s1) (dq_resvalS s1);
          s2 = count_res (s1\<lparr>dq_resvalS := snd r1\<rparr>)
      in if fst r1 \<noteq> 0 then Inl (fst r1, s2)
         else Inr (s2\<lparr>dq_resvalS := N_VLinearSum rDel (dq_resvalS s2) (- rDel) resval\<rparr>))"

definition IDASensRes1DQ_forward2_FP ::
  "IDAResFn \<Rightarrow> realtype \<Rightarrow> N_Vector \<Rightarrow> N_Vector \<Rightarrow> N_Vector \<Rightarrow> nat \<Rightarrow>
   realtype \<Rightarrow> realtype \<Rightarrow> dq_state \<Rightarrow> (int \<times> dq_state) + dq_state" where
  "IDASensRes1DQ_forward2_FP res t yy yp resval which psave Delp s =
     (let rDelp = 1 / Delp;
          s1 = set_p which (psave + Delp) s;
          r1 = res (ida_p (dq_mem s1)) t yy yp (dq_restemp s1);
          s2 = count_res (s1\<lparr>dq_restemp := snd r1\<rparr>)
      in if fst r1 \<noteq> 0 then Inl (fst r1, s2)
         else
          (let s3 = s2\<lparr>dq_restemp := N_VLinearSum rDelp (dq_restemp s2) (- rDelp) resval\<rparr>
           in Inr (s3\<lparr>dq_resvalS := N_VLinearSum 1 (dq_resvalS s3) 1 (dq_restemp s3)\<rparr>)))"

definition IDASensRes1DQ_forward2 ::
  "IDAResFn \<Rightarrow> realtype \<Rightarrow> N_Vector \<Rightarrow> N_Vector \<Rightarrow> N_Vector \<Rightarrow> N_Vector \<Rightarrow> N_Vector \<Rightarrow> nat \<Rightarrow>
   bool \<Rightarrow> realtype \<Rightarrow> realtype \<Rightarrow> realtype \<Rightarrow> dq_state \<Rightarrow> (int \<times> dq_state) + dq_state" where
  "IDASensRes1DQ_forward2 res t yy yp resval yyS ypS which skipFP psave Dely Delp s =
     (let rDely = 1 / Dely;
          s1 = s\<lparr>dq_ytemp := N_VLinearSum Dely yyS 1 yy,
                 dq_yptemp := N_VLinearSum Dely ypS 1 yp\<rparr>;
          r1 = res (ida_p (dq_mem s1)) t (dq_ytemp s1) (dq_yptemp s1) (dq_resvalS s1);
          s2 = count_res (s1\<lparr>dq_resvalS := snd r1\<rparr>)
      in if fst r1 \<noteq> 0 then Inl (fst r1, s2)
         else
          (let s3 = s2\<lparr>dq_resvalS := N_VLinearSum rDely (dq_resvalS s2) (- rDely) resval\<rparr>
           in if \<not> skipFP then IDASensRes1DQ_forward2_FP res t yy yp resval which psave Delp s3
              else Inr s3))"

text \<open>The choice of the method (lines 4893-4896).\<close>

definition IDASensRes1DQ_method :: "realtype \<Rightarrow> realtype \<Rightarrow> int" where
  "IDASensRes1DQ_method rhomax ratio =
     (if max (1 / ratio) ratio \<le> \<bar>rhomax\<bar> \<or> rhomax = 0
      then (if rhomax \<ge> 0 then CENTERED1 else FORWARD1)
      else (if rhomax > 0 then CENTERED2 else FORWARD2))"

text \<open>The index of the parameter and the flag \<^verbatim>\<open>skipFP\<close> (lines 4875-4881).\<close>

definition IDASensRes1DQ_which :: "IDAMemRec \<Rightarrow> nat \<Rightarrow> nat \<times> bool" where
  "IDASensRes1DQ_which mem is =
     (case ida_plist mem of
        Some pl \<Rightarrow> (nat (\<bar>pl ! is\<bar> - 1), pl ! is < 0)
      | None \<Rightarrow> (is, False))"

text \<open>
  The function up to the end of the \<^verbatim>\<open>switch\<close> (lines 4870-5048): the perturbations, the
  choice of the method, and the case chosen.
\<close>

definition IDASensRes1DQ_switch ::
  "IDAResFn \<Rightarrow> IDAMemRec \<Rightarrow> realtype \<Rightarrow> N_Vector \<Rightarrow> N_Vector \<Rightarrow> N_Vector \<Rightarrow> nat \<Rightarrow>
   N_Vector \<Rightarrow> N_Vector \<Rightarrow> dq_state \<Rightarrow> (int \<times> dq_state) + dq_state" where
  "IDASensRes1DQ_switch res mem t yy yp resval is yyS ypS s =
     (let del = RSqrt (max (ida_reltol mem) (ida_uround mem));
          rdel = 1 / del;
          which = fst (IDASensRes1DQ_which mem is);
          skipFP = snd (IDASensRes1DQ_which mem is);
          psave = ida_p mem ! which;
          pbari = \<bar>ida_pbar mem ! which\<bar>;
          Delp = pbari * del;
          rDelp = 1 / Delp;
          norms = N_VWrmsNorm yyS (ida_ewt mem) * pbari;
          rDely = max norms rdel / pbari;
          Dely = 1 / rDely;
          ratio = Dely * rDelp;
          method = IDASensRes1DQ_method (ida_rhomax mem) ratio
      in if method = CENTERED1
         then IDASensRes1DQ_centered1 res t yy yp yyS ypS which psave Dely Delp s
         else if method = CENTERED2
         then IDASensRes1DQ_centered2 res t yy yp yyS ypS which skipFP psave Dely Delp s
         else if method = FORWARD1
         then IDASensRes1DQ_forward1 res t yy yp resval yyS ypS which psave Dely Delp s
         else IDASensRes1DQ_forward2 res t yy yp resval yyS ypS which skipFP psave Dely Delp s)"

text \<open>
  The function itself. A case that reaches its \<^verbatim>\<open>break\<close> goes on to
  \<^verbatim>\<open>p[which] = psave; return(0);\<close> (lines 5050-5052); a case that returns does not.
\<close>

definition IDASensRes1DQ ::
  "IDAResFn \<Rightarrow> IDAMemRec \<Rightarrow> realtype \<Rightarrow> N_Vector \<Rightarrow> N_Vector \<Rightarrow> N_Vector \<Rightarrow> nat \<Rightarrow>
   N_Vector \<Rightarrow> N_Vector \<Rightarrow> N_Vector \<Rightarrow> N_Vector \<Rightarrow> N_Vector \<Rightarrow> N_Vector \<Rightarrow> int \<times> dq_state" where
  "IDASensRes1DQ res mem t yy yp resval is yyS ypS resvalS ytemp yptemp restemp =
     (let which = fst (IDASensRes1DQ_which mem is);
          psave = ida_p mem ! which;
          s = \<lparr>dq_mem = mem, dq_resvalS = resvalS, dq_ytemp = ytemp, dq_yptemp = yptemp,
               dq_restemp = restemp\<rparr>
      in case IDASensRes1DQ_switch res mem t yy yp resval is yyS ypS s of
           Inl r \<Rightarrow> r
         | Inr s' \<Rightarrow> (0, set_p which psave s'))"

text \<open>
  \<open>dq_blank w m\<close> blanks what IDASensRes1DQ may write in the memory: the entry \<open>w\<close> of
  the parameter array and the two counters of residual evaluations. Two memories with
  the same \<open>dq_blank w\<close> agree on every other field and on every other parameter.
\<close>

definition dq_blank :: "nat \<Rightarrow> IDAMemRec \<Rightarrow> IDAMemRec" where
  "dq_blank w m = m\<lparr>ida_p := (ida_p m)[w := 0], ida_nre := 0, ida_nreS := 0\<rparr>"

text \<open>
  \<open>dq_exit w mem b\<close>: what a case of the \<^verbatim>\<open>switch\<close> leaves behind: a nonzero flag when
  it returns, and in both cases a memory that is \<open>mem\<close> up to \<open>dq_blank w\<close>.
\<close>

definition dq_exit :: "nat \<Rightarrow> IDAMemRec \<Rightarrow> (int \<times> dq_state) + dq_state \<Rightarrow> bool" where
  "dq_exit w mem b =
     (case b of
        Inl r \<Rightarrow> fst r \<noteq> 0 \<and> dq_blank w (dq_mem (snd r)) = dq_blank w mem
      | Inr s \<Rightarrow> dq_blank w (dq_mem s) = dq_blank w mem)"

text \<open>
  The memory after two steps of size 1 at order 1 (\<open>psi = [1, 2]\<close>), at the start of an
  attempt with the step size reduced to 1/2.
\<close>

definition mem1 :: IDAMemRec where
  "mem1 = mem0\<lparr>ida_tn := 2, ida_nst := 2, ida_kk := 1, ida_kused := 1, ida_hused := 1,
     ida_hh := 1 / 2, ida_ns := 2, ida_phase := 1, ida_knew := 1,
     ida_psi := [1, 2, 0, 0, 0, 0], ida_alpha := [1, 1 / 2, 0, 0, 0, 0],
     ida_beta := [1, 1, 0, 0, 0, 0], ida_sigma := [1, 1 / 2, 0, 0, 0, 0],
     ida_gamma := [0, 1, 0, 0, 0, 0],
     ida_phi := [[1], [1 / 2], [0], [0], [0], [0]]\<rparr>"


section \<open>Error weights are kept on the error path\<close>

lemma fold_min_le_iff:
  "fold min xs (x::real) \<le> c \<longleftrightarrow> x \<le> c \<or> (\<exists>y\<in>set xs. y \<le> c)"
  by (induction xs arbitrary: x) (auto simp: min_le_iff_disj)

lemma N_VMin_le_iff:
  assumes "v \<noteq> []"
  shows "N_VMin v \<le> c \<longleftrightarrow> (\<exists>i<length v. v ! i \<le> c)"
proof -
  from assms obtain x xs where v: "v = x # xs" by (cases v) auto
  have "N_VMin v \<le> c \<longleftrightarrow> (\<exists>y\<in>set v. y \<le> c)"
    by (simp add: v N_VMin_def fold_min_le_iff)
  also have "\<dots> \<longleftrightarrow> (\<exists>i<length v. v ! i \<le> c)"
    by (metis in_set_conv_nth)
  finally show ?thesis .
qed

text \<open>The two routines in closed form: the scratch vector, the test, then the write.\<close>

lemma IDAEwtSetSS_eq:
  "IDAEwtSetSS mem ycur =
    (let v = map (\<lambda>y. ida_reltol mem * \<bar>y\<bar> + ida_abstol_ss mem) ycur in
     if N_VMin v \<le> 0 then (False, mem\<lparr>ida_tempv1 := v\<rparr>)
     else (True, mem\<lparr>ida_tempv1 := v, ida_ewt := N_VInv v\<rparr>))"
  by (simp add: IDAEwtSetSS_def Let_def N_VAbs_def N_VScale_def N_VAddConst_def comp_def)

lemma IDAEwtSetSV_eq:
  "IDAEwtSetSV mem ycur =
    (let v = map2 (\<lambda>y a. ida_reltol mem * y + 1 * a) (map abs ycur) (ida_abstol_sv mem) in
     if N_VMin v \<le> 0 then (False, mem\<lparr>ida_tempv1 := v\<rparr>)
     else (True, mem\<lparr>ida_tempv1 := v, ida_ewt := N_VInv v\<rparr>))"
  by (simp add: IDAEwtSetSV_def Let_def N_VAbs_def N_VLinearSum_def)

lemma IDAEwtSetSS_false_ewt:
  "\<not> fst (IDAEwtSetSS mem ycur) \<Longrightarrow> ida_ewt (snd (IDAEwtSetSS mem ycur)) = ida_ewt mem"
  by (cases "N_VMin (map (\<lambda>y. ida_reltol mem * \<bar>y\<bar> + ida_abstol_ss mem) ycur) \<le> 0")
     (simp_all add: IDAEwtSetSS_eq Let_def)

lemma IDAEwtSetSV_false_ewt:
  "\<not> fst (IDAEwtSetSV mem ycur) \<Longrightarrow> ida_ewt (snd (IDAEwtSetSV mem ycur)) = ida_ewt mem"
  by (cases "N_VMin (map2 (\<lambda>y a. ida_reltol mem * y + 1 * a) (map abs ycur)
                       (ida_abstol_sv mem)) \<le> 0")
     (simp_all add: IDAEwtSetSV_eq Let_def)

text \<open>
  The \<^verbatim>\<open>FALSE\<close> return is exactly the case of a non-positive component of
  \<open>rtol * |y[i]| + atol\<close> (scalar tolerance).
\<close>

lemma IDAEwtSetSS_false_iff:
  assumes "ycur \<noteq> []"
  shows "\<not> fst (IDAEwtSetSS mem ycur) \<longleftrightarrow>
         (\<exists>i<length ycur. ida_reltol mem * \<bar>ycur ! i\<bar> + ida_abstol_ss mem \<le> 0)"
proof -
  let ?v = "map (\<lambda>y. ida_reltol mem * \<bar>y\<bar> + ida_abstol_ss mem) ycur"
  have "\<not> fst (IDAEwtSetSS mem ycur) \<longleftrightarrow> N_VMin ?v \<le> 0"
    by (cases "N_VMin ?v \<le> 0") (simp_all add: IDAEwtSetSS_eq Let_def)
  also have "\<dots> \<longleftrightarrow> (\<exists>i<length ?v. ?v ! i \<le> 0)"
    using assms by (intro N_VMin_le_iff) simp
  also have "\<dots> \<longleftrightarrow> (\<exists>i<length ycur. ida_reltol mem * \<bar>ycur ! i\<bar> + ida_abstol_ss mem \<le> 0)"
    by auto
  finally show ?thesis .
qed

text \<open>
  Claim C10. When IDAEwtSetSS, IDAEwtSetSV or the dispatcher IDAEwtSet returns
  \<^verbatim>\<open>FALSE\<close>, the stored weight vector \<^verbatim>\<open>ewt\<close> is the one it was before the call: the
  positivity test reads the scratch vector \<^verbatim>\<open>tempv1\<close>, and \<^verbatim>\<open>ewt\<close> is written only
  after the test has passed.
\<close>

theorem IDAEwtSet_false_keeps_ewt:
  "(\<not> fst (IDAEwtSetSS mem ycur) \<longrightarrow> ida_ewt (snd (IDAEwtSetSS mem ycur)) = ida_ewt mem) \<and>
   (\<not> fst (IDAEwtSetSV mem ycur) \<longrightarrow> ida_ewt (snd (IDAEwtSetSV mem ycur)) = ida_ewt mem) \<and>
   (\<not> fst (IDAEwtSet mem ycur) \<longrightarrow> ida_ewt (snd (IDAEwtSet mem ycur)) = ida_ewt mem)"
proof (intro conjI impI)
  show "ida_ewt (snd (IDAEwtSetSS mem ycur)) = ida_ewt mem" if "\<not> fst (IDAEwtSetSS mem ycur)"
    using that by (rule IDAEwtSetSS_false_ewt)
  show "ida_ewt (snd (IDAEwtSetSV mem ycur)) = ida_ewt mem" if "\<not> fst (IDAEwtSetSV mem ycur)"
    using that by (rule IDAEwtSetSV_false_ewt)
  show "ida_ewt (snd (IDAEwtSet mem ycur)) = ida_ewt mem" if "\<not> fst (IDAEwtSet mem ycur)"
  proof -
    consider "ida_itol mem = IDA_SS" | "ida_itol mem \<noteq> IDA_SS" "ida_itol mem = IDA_SV"
      | "ida_itol mem \<noteq> IDA_SS" "ida_itol mem \<noteq> IDA_SV" by blast
    then show ?thesis
    proof cases
      case 1
      with that show ?thesis by (simp add: IDAEwtSet_def IDAEwtSetSS_false_ewt)
    next
      case 2
      with that show ?thesis by (simp add: IDAEwtSet_def IDAEwtSetSV_false_ewt)
    next
      case 3
      then show ?thesis by (simp add: IDAEwtSet_def)
    qed
  qed
qed

theorem IDAEwtSet_false_keeps_ewt_witness:
  "\<not> fst (IDAEwtSetSS mem0 [0]) \<and> ida_ewt (snd (IDAEwtSetSS mem0 [0])) = [1] \<and>
   \<not> fst (IDAEwtSetSV mem0 [0]) \<and> ida_ewt (snd (IDAEwtSetSV mem0 [0])) = [1] \<and>
   \<not> fst (IDAEwtSet mem0 [0]) \<and> ida_ewt (snd (IDAEwtSet mem0 [0])) = [1]"
proof -
  have ss: "\<not> fst (IDAEwtSetSS mem0 [0])"
    by (simp add: IDAEwtSetSS_eq Let_def N_VMin_def mem0_def)
  have sv: "\<not> fst (IDAEwtSetSV mem0 [0])"
    by (simp add: IDAEwtSetSV_eq Let_def N_VMin_def mem0_def)
  have s: "\<not> fst (IDAEwtSet mem0 [0])"
    using ss by (simp add: IDAEwtSet_def mem0_def)
  have e: "ida_ewt mem0 = [1]" by (simp add: mem0_def)
  from IDAEwtSet_false_keeps_ewt [of mem0 "[0]"] ss sv s e show ?thesis by simp
qed

section \<open>The coefficient loop and the phi-star transform\<close>












lemma coeff_inv_init:
  assumes "coeff_wide r 0"
  shows "coeff_inv h r 0
     \<lparr>r_psi = r_psi r, r_alpha = (r_alpha r)[0 := 1], r_beta = (r_beta r)[0 := 1],
      r_sigma = (r_sigma r)[0 := 1], r_gamma = (r_gamma r)[0 := 0], r_temp1 = h\<rparr>"
  using assms by (simp add: coeff_inv_def coeff_wide_def nth_list_update)

lemma coeff_inv_step:
  assumes inv: "coeff_inv h r k r'" and wide: "coeff_wide r (Suc k)"
  shows "coeff_inv h r (Suc k) (IDASetCoeffs_iter h (Suc k) r')"
proof -
  from wide have w: "Suc k < length (r_psi r)" "Suc k < length (r_alpha r)" "Suc k < length (r_beta r)"
     "Suc k < length (r_sigma r)" "Suc k < length (r_gamma r)"
    by (simp_all add: coeff_wide_def)
  from inv have len: "length (r_psi r') = length (r_psi r)" "length (r_alpha r') = length (r_alpha r)"
     "length (r_beta r') = length (r_beta r)" "length (r_sigma r') = length (r_sigma r)"
     "length (r_gamma r') = length (r_gamma r)"
    and t: "r_temp1 r' = psi_rec h (r_psi r) k"
    and ps: "\<And>j. j < length (r_psi r) \<Longrightarrow> r_psi r' ! j = (if j < k then psi_rec h (r_psi r) j else r_psi r ! j)"
    and al: "\<And>i. i < length (r_alpha r) \<Longrightarrow> r_alpha r' ! i = (if i \<le> k then alpha_rec h (r_psi r) i else r_alpha r ! i)"
    and be: "\<And>i. i < length (r_beta r) \<Longrightarrow> r_beta r' ! i = (if i \<le> k then beta_rec h (r_psi r) i else r_beta r ! i)"
    and si: "\<And>i. i < length (r_sigma r) \<Longrightarrow> r_sigma r' ! i = (if i \<le> k then sigma_rec h (r_psi r) i else r_sigma r ! i)"
    and ga: "\<And>i. i < length (r_gamma r) \<Longrightarrow> r_gamma r' ! i = (if i \<le> k then gamma_rec h (r_psi r) i else r_gamma r ! i)"
    by (simp_all add: coeff_inv_def)
  have k: "k < length (r_psi r)" "k < length (r_alpha r)" "k < length (r_beta r)"
     "k < length (r_sigma r)" "k < length (r_gamma r)"
    using w by simp_all
  have psk: "r_psi r' ! k = r_psi r ! k" using ps[OF k(1)] by simp
  have alk: "r_alpha r' ! k = alpha_rec h (r_psi r) k" using al[OF k(2)] by simp
  have bek: "r_beta r' ! k = beta_rec h (r_psi r) k" using be[OF k(3)] by simp
  have sik: "r_sigma r' ! k = sigma_rec h (r_psi r) k" using si[OF k(4)] by simp
  have gak: "r_gamma r' ! k = gamma_rec h (r_psi r) k" using ga[OF k(5)] by simp
  show ?thesis
    unfolding coeff_inv_def IDASetCoeffs_iter_def Let_def
    using w k len t psk alk bek sik gak
    by (auto simp: nth_list_update ps al be si ga)
qed

lemma coeff_inv_loop:
  assumes "coeff_wide r k"
  shows "coeff_inv h r k
     (fold (IDASetCoeffs_iter h) [1..<Suc k]
       \<lparr>r_psi = r_psi r, r_alpha = (r_alpha r)[0 := 1], r_beta = (r_beta r)[0 := 1],
        r_sigma = (r_sigma r)[0 := 1], r_gamma = (r_gamma r)[0 := 0], r_temp1 = h\<rparr>)"
  using assms
proof (induction k)
  case 0
  then show ?case using coeff_inv_init by simp
next
  case (Suc k)
  from Suc.prems have "coeff_wide r k" by (simp add: coeff_wide_def)
  from coeff_inv_step[OF Suc.IH[OF this] Suc.prems] show ?case by simp
qed

lemma IDASetCoeffs_arrays_inv:
  assumes "coeff_wide r k"
  shows "length (r_psi (IDASetCoeffs_arrays h k r)) = length (r_psi r)"
    and "length (r_beta (IDASetCoeffs_arrays h k r)) = length (r_beta r)"
    and "\<And>j. j \<le> k \<Longrightarrow> r_psi (IDASetCoeffs_arrays h k r) ! j = psi_rec h (r_psi r) j"
    and "\<And>j. j \<le> k \<Longrightarrow> r_alpha (IDASetCoeffs_arrays h k r) ! j = alpha_rec h (r_psi r) j"
    and "\<And>j. j \<le> k \<Longrightarrow> r_beta (IDASetCoeffs_arrays h k r) ! j = beta_rec h (r_psi r) j"
    and "\<And>j. j \<le> k \<Longrightarrow> r_sigma (IDASetCoeffs_arrays h k r) ! j = sigma_rec h (r_psi r) j"
    and "\<And>j. j \<le> k \<Longrightarrow> r_gamma (IDASetCoeffs_arrays h k r) ! j = gamma_rec h (r_psi r) j"
proof -
  let ?R = "fold (IDASetCoeffs_iter h) [1..<Suc k]
       \<lparr>r_psi = r_psi r, r_alpha = (r_alpha r)[0 := 1], r_beta = (r_beta r)[0 := 1],
        r_sigma = (r_sigma r)[0 := 1], r_gamma = (r_gamma r)[0 := 0], r_temp1 = h\<rparr>"
  have inv: "coeff_inv h r k ?R" by (rule coeff_inv_loop[OF assms])
  have eq: "IDASetCoeffs_arrays h k r = ?R\<lparr>r_psi := (r_psi ?R)[k := r_temp1 ?R]\<rparr>"
    by (simp add: IDASetCoeffs_arrays_def Let_def del: upt_Suc)
  from assms have w: "k < length (r_psi r)" "k < length (r_alpha r)" "k < length (r_beta r)"
     "k < length (r_sigma r)" "k < length (r_gamma r)"
    by (simp_all add: coeff_wide_def)
  show "length (r_psi (IDASetCoeffs_arrays h k r)) = length (r_psi r)"
    using inv by (simp add: eq coeff_inv_def del: upt_Suc)
  show "length (r_beta (IDASetCoeffs_arrays h k r)) = length (r_beta r)"
    using inv by (simp add: eq coeff_inv_def del: upt_Suc)
  show "r_psi (IDASetCoeffs_arrays h k r) ! j = psi_rec h (r_psi r) j" if "j \<le> k" for j
    using inv that w by (simp add: eq coeff_inv_def nth_list_update del: upt_Suc)
  show "r_alpha (IDASetCoeffs_arrays h k r) ! j = alpha_rec h (r_psi r) j" if "j \<le> k" for j
    using inv that w by (simp add: eq coeff_inv_def del: upt_Suc)
  show "r_beta (IDASetCoeffs_arrays h k r) ! j = beta_rec h (r_psi r) j" if "j \<le> k" for j
    using inv that w by (simp add: eq coeff_inv_def del: upt_Suc)
  show "r_sigma (IDASetCoeffs_arrays h k r) ! j = sigma_rec h (r_psi r) j" if "j \<le> k" for j
    using inv that w by (simp add: eq coeff_inv_def del: upt_Suc)
  show "r_gamma (IDASetCoeffs_arrays h k r) ! j = gamma_rec h (r_psi r) j" if "j \<le> k" for j
    using inv that w by (simp add: eq coeff_inv_def del: upt_Suc)
qed




lemma IDASetCoeffs_frame:
  "ida_ns (snd (IDASetCoeffs mem)) = IDASetCoeffs_ns mem"
  "ida_hh (snd (IDASetCoeffs mem)) = ida_hh mem"
  "ida_kk (snd (IDASetCoeffs mem)) = ida_kk mem"
  "ida_quad (snd (IDASetCoeffs mem)) = ida_quad mem"
  "ida_sensi (snd (IDASetCoeffs mem)) = ida_sensi mem"
  "ida_Ns (snd (IDASetCoeffs mem)) = ida_Ns mem"
  "ida_tn (snd (IDASetCoeffs mem)) = ida_tn mem + ida_hh mem"
  by (simp_all add: IDASetCoeffs_def Let_def)

lemma IDASetCoeffs_coeffs:
  "ida_psi (snd (IDASetCoeffs mem)) = r_psi (IDASetCoeffs_regs mem)"
  "ida_alpha (snd (IDASetCoeffs mem)) = r_alpha (IDASetCoeffs_regs mem)"
  "ida_beta (snd (IDASetCoeffs mem)) = r_beta (IDASetCoeffs_regs mem)"
  "ida_sigma (snd (IDASetCoeffs mem)) = r_sigma (IDASetCoeffs_regs mem)"
  "ida_gamma (snd (IDASetCoeffs mem)) = r_gamma (IDASetCoeffs_regs mem)"
  by (simp_all add: IDASetCoeffs_def Let_def)



lemma IDASetCoeffs_regs_branch:
  assumes "ida_ns (snd (IDASetCoeffs mem)) \<le> ida_kk mem + 1"
  shows "IDASetCoeffs_regs mem = IDASetCoeffs_arrays (ida_hh mem) (nat (ida_kk mem)) (regs_of mem)"
  using assms by (simp add: IDASetCoeffs_frame IDASetCoeffs_regs_def)

lemma regs_of_simps:
  "r_psi (regs_of mem) = ida_psi mem" "r_alpha (regs_of mem) = ida_alpha mem"
  "r_beta (regs_of mem) = ida_beta mem" "r_sigma (regs_of mem) = ida_sigma mem"
  "r_gamma (regs_of mem) = ida_gamma mem"
  by (simp_all add: regs_of_def)

lemma sum_take_Suc_Cons: "sum_list (take (Suc i) (h # hs)) = h + sum_list (take i hs)"
  by simp

lemma IDASetCoeffs_closed_form:
  assumes branch: "ida_ns (snd (IDASetCoeffs mem)) \<le> ida_kk mem + 1"
    and wide: "coeff_wide (regs_of mem) (nat (ida_kk mem))"
    and j: "j \<le> nat (ida_kk mem)"
  shows "ida_psi (snd (IDASetCoeffs mem)) ! j = psi_rec (ida_hh mem) (ida_psi mem) j"
    and "ida_alpha (snd (IDASetCoeffs mem)) ! j = alpha_rec (ida_hh mem) (ida_psi mem) j"
    and "ida_beta (snd (IDASetCoeffs mem)) ! j = beta_rec (ida_hh mem) (ida_psi mem) j"
    and "ida_sigma (snd (IDASetCoeffs mem)) ! j = sigma_rec (ida_hh mem) (ida_psi mem) j"
    and "ida_gamma (snd (IDASetCoeffs mem)) ! j = gamma_rec (ida_hh mem) (ida_psi mem) j"
    and "length (ida_psi (snd (IDASetCoeffs mem))) = length (ida_psi mem)"
proof -
  note regs = IDASetCoeffs_regs_branch[OF branch]
  note inv = IDASetCoeffs_arrays_inv[OF wide, where h = "ida_hh mem", folded regs,
      unfolded regs_of_simps, folded IDASetCoeffs_coeffs]
  show "ida_psi (snd (IDASetCoeffs mem)) ! j = psi_rec (ida_hh mem) (ida_psi mem) j"
    using inv(3)[OF j] .
  show "ida_alpha (snd (IDASetCoeffs mem)) ! j = alpha_rec (ida_hh mem) (ida_psi mem) j"
    using inv(4)[OF j] .
  show "ida_beta (snd (IDASetCoeffs mem)) ! j = beta_rec (ida_hh mem) (ida_psi mem) j"
    using inv(5)[OF j] .
  show "ida_sigma (snd (IDASetCoeffs mem)) ! j = sigma_rec (ida_hh mem) (ida_psi mem) j"
    using inv(6)[OF j] .
  show "ida_gamma (snd (IDASetCoeffs mem)) ! j = gamma_rec (ida_hh mem) (ida_psi mem) j"
    using inv(7)[OF j] .
  show "length (ida_psi (snd (IDASetCoeffs mem))) = length (ida_psi mem)"
    using inv(1) .
qed

lemma mem1_branch: "ida_ns (snd (IDASetCoeffs mem1)) \<le> ida_kk mem1 + 1"
  by (simp add: IDASetCoeffs_frame IDASetCoeffs_ns_def mem1_def)

lemma mem1_wide: "coeff_wide (regs_of mem1) (nat (ida_kk mem1))"
  by (simp add: coeff_wide_def regs_of_def mem1_def)

lemma mem1_fields:
  "ida_hh mem1 = 1 / 2" "ida_kk mem1 = 1" "ida_psi mem1 = [1, 2, 0, 0, 0, 0]" "ida_tn mem1 = 2"
  "ida_phi mem1 = [[1], [1 / 2], [0], [0], [0], [0]]"
  by (simp_all add: mem1_def)

text \<open>
  Claim C4 (as amended). On a step attempt with \<^verbatim>\<open>kk + 1 >= ns\<close>, IDASetCoeffs sets
  \<open>psi[0] = h\<close> and \<open>psi[i] = psi_old[i-1] + h\<close>, so that \<open>psi[i]\<close> is the sum of the last
  \<open>i+1\<close> step sizes when the old entries were such sums; it sets
  \<open>alpha[0] = beta[0] = sigma[0] = 1\<close>, \<open>gamma[0] = 0\<close> and, for \<open>i = 1..kk\<close>,
  \<open>alpha[i] = h / psi[i]\<close>, \<open>beta[i] = beta[i-1] * psi[i-1] / psi_old[i-1]\<close> (the new
  value of \<open>psi[i-1]\<close> over the old one), \<open>sigma[i] = i * sigma[i-1] * alpha[i]\<close> and
  \<open>gamma[i] = gamma[i-1] + alpha[i-1] / h\<close>.
\<close>

theorem IDASetCoeffs_recurrences:
  assumes branch: "ida_ns (snd (IDASetCoeffs mem)) \<le> ida_kk mem + 1"
    and wide: "coeff_wide (regs_of mem) (nat (ida_kk mem))"
  shows "let h = ida_hh mem; k = nat (ida_kk mem); psi = ida_psi mem;
             mem' = snd (IDASetCoeffs mem);
             psi' = ida_psi mem'; alpha' = ida_alpha mem'; beta' = ida_beta mem';
             sigma' = ida_sigma mem'; gamma' = ida_gamma mem'
         in psi' ! 0 = h \<and> alpha' ! 0 = 1 \<and> beta' ! 0 = 1 \<and> sigma' ! 0 = 1 \<and> gamma' ! 0 = 0 \<and>
            (\<forall>i. 1 \<le> i \<and> i \<le> k \<longrightarrow>
                 psi' ! i = psi ! (i - 1) + h \<and>
                 alpha' ! i = h / psi' ! i \<and>
                 beta' ! i = beta' ! (i - 1) * psi' ! (i - 1) / psi ! (i - 1) \<and>
                 sigma' ! i = real i * sigma' ! (i - 1) * alpha' ! i \<and>
                 gamma' ! i = gamma' ! (i - 1) + alpha' ! (i - 1) / h) \<and>
            (\<forall>hs. (\<forall>j<k. psi ! j = sum_list (take (Suc j) hs)) \<longrightarrow>
                  (\<forall>i\<le>k. psi' ! i = sum_list (take (Suc i) (h # hs))))"
proof -
  define h where "h = ida_hh mem"
  define k where "k = nat (ida_kk mem)"
  define ps where "ps = ida_psi mem"
  note regs = IDASetCoeffs_regs_branch[OF branch]
  note inv = IDASetCoeffs_arrays_inv[OF wide, where h = "ida_hh mem", folded regs, unfolded regs_of_simps,
      folded IDASetCoeffs_coeffs h_def k_def ps_def]
  have psi: "ida_psi (snd (IDASetCoeffs mem)) ! j = psi_rec h ps j" if "j \<le> k" for j
    using inv(3)[OF that] .
  have alpha: "ida_alpha (snd (IDASetCoeffs mem)) ! j = alpha_rec h ps j" if "j \<le> k" for j
    using inv(4)[OF that] .
  have beta: "ida_beta (snd (IDASetCoeffs mem)) ! j = beta_rec h ps j" if "j \<le> k" for j
    using inv(5)[OF that] .
  have sigma: "ida_sigma (snd (IDASetCoeffs mem)) ! j = sigma_rec h ps j" if "j \<le> k" for j
    using inv(6)[OF that] .
  have gamma: "ida_gamma (snd (IDASetCoeffs mem)) ! j = gamma_rec h ps j" if "j \<le> k" for j
    using inv(7)[OF that] .
  have base: "ida_psi (snd (IDASetCoeffs mem)) ! 0 = h \<and> ida_alpha (snd (IDASetCoeffs mem)) ! 0 = 1 \<and>
      ida_beta (snd (IDASetCoeffs mem)) ! 0 = 1 \<and> ida_sigma (snd (IDASetCoeffs mem)) ! 0 = 1 \<and>
      ida_gamma (snd (IDASetCoeffs mem)) ! 0 = 0"
    by (simp add: psi alpha beta sigma gamma)
  have step: "ida_psi (snd (IDASetCoeffs mem)) ! i = ps ! (i - 1) + h \<and>
      ida_alpha (snd (IDASetCoeffs mem)) ! i = h / ida_psi (snd (IDASetCoeffs mem)) ! i \<and>
      ida_beta (snd (IDASetCoeffs mem)) ! i =
        ida_beta (snd (IDASetCoeffs mem)) ! (i - 1) * ida_psi (snd (IDASetCoeffs mem)) ! (i - 1) / ps ! (i - 1) \<and>
      ida_sigma (snd (IDASetCoeffs mem)) ! i =
        real i * ida_sigma (snd (IDASetCoeffs mem)) ! (i - 1) * ida_alpha (snd (IDASetCoeffs mem)) ! i \<and>
      ida_gamma (snd (IDASetCoeffs mem)) ! i =
        ida_gamma (snd (IDASetCoeffs mem)) ! (i - 1) + ida_alpha (snd (IDASetCoeffs mem)) ! (i - 1) / h"
    if "1 \<le> i \<and> i \<le> k" for i
  proof -
    from that obtain l where i: "i = Suc l" and l: "l \<le> k" "Suc l \<le> k"
      by (cases i) auto
    show ?thesis
      unfolding i by (simp add: psi[OF l(1)] psi[OF l(2)] alpha[OF l(1)] alpha[OF l(2)]
          beta[OF l(1)] beta[OF l(2)] sigma[OF l(1)] sigma[OF l(2)] gamma[OF l(1)] gamma[OF l(2)])
  qed
  have sums: "ida_psi (snd (IDASetCoeffs mem)) ! i = sum_list (take (Suc i) (h # hs))"
    if hs: "\<forall>j<k. ps ! j = sum_list (take (Suc j) hs)" and i: "i \<le> k" for hs i
  proof (cases i)
    case 0
    then show ?thesis using psi[OF i] by simp
  next
    case (Suc l)
    then have "l < k" using i by simp
    with hs have "ps ! l = sum_list (take (Suc l) hs)" by blast
    then show ?thesis using psi[OF i] unfolding Suc sum_take_Suc_Cons by simp
  qed
  show ?thesis
    unfolding Let_def h_def[symmetric] k_def[symmetric] ps_def[symmetric]
    using base step sums by blast
qed

theorem IDASetCoeffs_recurrences_witness:
  "ida_ns (snd (IDASetCoeffs mem1)) \<le> ida_kk mem1 + 1 \<and>
   coeff_wide (regs_of mem1) (nat (ida_kk mem1)) \<and>
   ida_psi (snd (IDASetCoeffs mem1)) ! 0 = 1 / 2 \<and>
   ida_psi (snd (IDASetCoeffs mem1)) ! 1 = 3 / 2 \<and>
   ida_alpha (snd (IDASetCoeffs mem1)) ! 1 = 1 / 3 \<and>
   ida_beta (snd (IDASetCoeffs mem1)) ! 1 = 1 / 2 \<and>
   ida_sigma (snd (IDASetCoeffs mem1)) ! 1 = 1 / 3 \<and>
   ida_gamma (snd (IDASetCoeffs mem1)) ! 1 = 2"
proof -
  note t = IDASetCoeffs_recurrences[OF mem1_branch mem1_wide, unfolded Let_def mem1_fields]
  from t have b: "ida_psi (snd (IDASetCoeffs mem1)) ! 0 = 1 / 2"
    "ida_alpha (snd (IDASetCoeffs mem1)) ! 0 = 1" "ida_beta (snd (IDASetCoeffs mem1)) ! 0 = 1"
    "ida_sigma (snd (IDASetCoeffs mem1)) ! 0 = 1" "ida_gamma (snd (IDASetCoeffs mem1)) ! 0 = 0"
    by blast+
  from t have "1 \<le> (1::nat) \<and> (1::nat) \<le> nat 1 \<longrightarrow>
       ida_psi (snd (IDASetCoeffs mem1)) ! 1 = [1, 2, 0, 0, 0, 0] ! (1 - 1) + 1 / 2 \<and>
       ida_alpha (snd (IDASetCoeffs mem1)) ! 1 = 1 / 2 / ida_psi (snd (IDASetCoeffs mem1)) ! 1 \<and>
       ida_beta (snd (IDASetCoeffs mem1)) ! 1 =
         ida_beta (snd (IDASetCoeffs mem1)) ! (1 - 1) * ida_psi (snd (IDASetCoeffs mem1)) ! (1 - 1) /
           [1, 2, 0, 0, 0, 0] ! (1 - 1) \<and>
       ida_sigma (snd (IDASetCoeffs mem1)) ! 1 =
         real 1 * ida_sigma (snd (IDASetCoeffs mem1)) ! (1 - 1) * ida_alpha (snd (IDASetCoeffs mem1)) ! 1 \<and>
       ida_gamma (snd (IDASetCoeffs mem1)) ! 1 =
         ida_gamma (snd (IDASetCoeffs mem1)) ! (1 - 1) + ida_alpha (snd (IDASetCoeffs mem1)) ! (1 - 1) / (1 / 2)"
    by blast
  with b show ?thesis using mem1_branch mem1_wide by simp
qed

text \<open>
  The claim as stated has the quotient of \<open>beta\<close> the other way round (the previous
  \<open>psi\<close> over the new one). With \<open>psi_old[0] = 1\<close> and \<open>h = 1/2\<close> the code gives
  \<open>beta[1] = 1/2\<close>, the stated recurrence gives \<open>2\<close>.
\<close>

theorem IDASetCoeffs_beta_counterexample:
  "ida_ns (snd (IDASetCoeffs mem1)) \<le> ida_kk mem1 + 1 \<and>
   ida_beta (snd (IDASetCoeffs mem1)) ! 1 = 1 / 2 \<and>
   ida_beta (snd (IDASetCoeffs mem1)) ! 0 * ida_psi mem1 ! 0 / ida_psi (snd (IDASetCoeffs mem1)) ! 0 = 2"
proof -
  have 0: "(0::nat) \<le> nat (ida_kk mem1)" and 1: "(1::nat) \<le> nat (ida_kk mem1)"
    by (simp_all add: mem1_fields)
  have b0: "ida_beta (snd (IDASetCoeffs mem1)) ! 0 = 1"
    using IDASetCoeffs_closed_form(3)[OF mem1_branch mem1_wide 0] by simp
  have b1: "ida_beta (snd (IDASetCoeffs mem1)) ! 1 = 1 / 2"
    using IDASetCoeffs_closed_form(3)[OF mem1_branch mem1_wide 1] by (simp add: mem1_fields)
  have p0: "ida_psi (snd (IDASetCoeffs mem1)) ! 0 = 1 / 2"
    using IDASetCoeffs_closed_form(1)[OF mem1_branch mem1_wide 0] by (simp add: mem1_fields)
  show ?thesis
    unfolding b0 b1 p0 using mem1_branch by (simp add: mem1_fields)
qed




section \<open>The error-test failure ladder\<close>

lemma IDATestError_knew_range:
  "fst (IDATestError_knew kk erk erkm1 erkm2) = kk \<or> fst (IDATestError_knew kk erk erkm1 erkm2) = kk - 1"
  by (simp add: IDATestError_knew_def Let_def split: prod.split)

lemma IDATestError_sets_knew:
  assumes "IDATestError mem ck e0 = (flag, est, erk, erkm1, mem1)"
  shows "ida_kk mem1 = ida_kk mem \<and> (ida_knew mem1 = ida_kk mem \<or> ida_knew mem1 = ida_kk mem - 1)"
proof (cases "ida_kk mem > 1")
  case True
  define m1 where "m1 = IDATestError_delta1 mem"
  define m2 where "m2 = (if ida_kk mem > 2 then IDATestError_delta2 m1 else m1)"
  define kn where "kn = IDATestError_knew (ida_kk mem)
      (ida_sigma mem ! nat (ida_kk mem) * IDATestError_enorm_k mem)
      (ida_sigma mem ! nat (ida_kk mem - 1) * IDATestError_enorm_delta m1)
      (ida_sigma mem ! nat (ida_kk mem - 2) * IDATestError_enorm_delta m2)"
  have kk: "ida_kk m2 = ida_kk mem"
    by (simp add: m2_def m1_def IDATestError_delta1_def IDATestError_delta2_def)
  have e: "mem1 = m2\<lparr>ida_knew := fst kn\<rparr>"
    using assms True
    by (simp add: IDATestError_def Let_def m1_def[symmetric] m2_def[symmetric] kn_def[symmetric]
        split: prod.splits)
  have f: "ida_kk mem1 = ida_kk m2" "ida_knew mem1 = fst kn"
    unfolding e by simp_all
  have "fst kn = ida_kk mem \<or> fst kn = ida_kk mem - 1"
    unfolding kn_def by (rule IDATestError_knew_range)
  then show ?thesis
    unfolding f kk by simp
next
  case False
  with assms have e: "mem1 = mem\<lparr>ida_knew := ida_kk mem\<rparr>"
    by (simp add: IDATestError_def Let_def)
  show ?thesis unfolding e by simp
qed

lemma IDARestore_keeps_order:
  "ida_kk (IDARestore mem t) = ida_kk mem" "ida_knew (IDARestore mem t) = ida_knew mem"
  "ida_hh (IDARestore mem t) = ida_hh mem" "ida_maxnef (IDARestore mem t) = ida_maxnef mem"
  by (simp_all add: IDARestore_def Let_def)

lemma IDAHandleNFlag_etf_1:
  assumes "nef + 1 = 1"
  shows "IDAHandleNFlag mem ERROR_TEST_FAIL ncf nef est =
     (let rr = max 0.25 (min 0.9 (0.9 * RPowerR (2 * est + 0.0001) (- 1 / real_of_int (ida_knew mem + 1))))
      in (PREDICT_AGAIN,
          mem\<lparr>ida_phase := 1, ida_netf := ida_netf mem + 1, ida_kk := ida_knew mem, ida_rr := rr,
              ida_hh := ida_hh mem * rr\<rparr>, ncf, 1))"
  using assms by (simp add: IDAHandleNFlag_def IDAHandleNFlag_etf_def Let_def)

lemma IDAHandleNFlag_etf_2:
  assumes "nef + 1 = 2"
  shows "IDAHandleNFlag mem ERROR_TEST_FAIL ncf nef est =
      (PREDICT_AGAIN,
          mem\<lparr>ida_phase := 1, ida_netf := ida_netf mem + 1, ida_kk := ida_knew mem, ida_rr := 0.25,
              ida_hh := ida_hh mem * 0.25\<rparr>, ncf, 2)"
  using assms by (simp add: IDAHandleNFlag_def IDAHandleNFlag_etf_def Let_def)

lemma IDAHandleNFlag_etf_3:
  assumes "nef + 1 \<noteq> 1" "nef + 1 \<noteq> 2" "nef + 1 < ida_maxnef mem"
  shows "IDAHandleNFlag mem ERROR_TEST_FAIL ncf nef est =
      (PREDICT_AGAIN,
          mem\<lparr>ida_phase := 1, ida_netf := ida_netf mem + 1, ida_kk := 1, ida_rr := 0.25,
              ida_hh := ida_hh mem * 0.25\<rparr>, ncf, nef + 1)"
  using assms by (simp add: IDAHandleNFlag_def IDAHandleNFlag_etf_def Let_def)

lemma IDAHandleNFlag_etf_4:
  assumes "nef + 1 \<noteq> 1" "nef + 1 \<noteq> 2" "\<not> nef + 1 < ida_maxnef mem"
  shows "IDAHandleNFlag mem ERROR_TEST_FAIL ncf nef est =
      (IDA_ERR_FAIL, mem\<lparr>ida_phase := 1, ida_netf := ida_netf mem + 1\<rparr>, ncf, nef + 1)"
  using assms by (simp add: IDAHandleNFlag_def IDAHandleNFlag_etf_def Let_def)

text \<open>
  Claim C5. An error-test failure is handled with \<^verbatim>\<open>nflag = ERROR_TEST_FAIL\<close>; \<open>nef\<close> counts
  the failures of the step and is incremented first. The error test routines leave
  \<^verbatim>\<open>knew\<close> at \<^verbatim>\<open>kk\<close> or \<^verbatim>\<open>kk - 1\<close> (lemma \<open>IDATestError_sets_knew\<close>), and \<^verbatim>\<open>maxnef\<close> is at least
  3 (its default is 10). Then: on the first failure the order becomes \<^verbatim>\<open>knew\<close> (kept or
  lowered by one) and \<open>rr = 0.9 * (2 est + 0.0001)^(-1/(k+1))\<close> clamped to \<open>[0.25, 0.9]\<close>;
  on the second the order becomes \<^verbatim>\<open>knew\<close> and \<open>rr = 0.25\<close>; from the third on, below
  \<^verbatim>\<open>maxnef\<close>, the order is 1 and \<open>rr = 0.25\<close>; in these cases \<open>h\<close> is multiplied by \<open>rr\<close> and
  the flag is \<^verbatim>\<open>PREDICT_AGAIN\<close>; at the \<^verbatim>\<open>maxnef\<close>-th failure the flag is \<^verbatim>\<open>IDA_ERR_FAIL\<close> and
  \<open>h\<close> and the order are left as they are.
\<close>

theorem IDAHandleNFlag_error_test_ladder:
  assumes maxnef: "3 \<le> ida_maxnef mem"
    and knew: "ida_knew mem = ida_kk mem \<or> ida_knew mem = ida_kk mem - 1"
  shows "case IDAHandleNFlag mem ERROR_TEST_FAIL ncf nef est of (kflag, mem', ncf', nef') \<Rightarrow>
     nef' = nef + 1 \<and> ncf' = ncf \<and>
     (nef' = 1 \<longrightarrow>
        kflag = PREDICT_AGAIN \<and> ida_kk mem' = ida_knew mem \<and>
        (ida_kk mem' = ida_kk mem \<or> ida_kk mem' = ida_kk mem - 1) \<and>
        ida_rr mem' = max 0.25 (min 0.9
           (0.9 * RPowerR (2 * est + 0.0001) (- 1 / real_of_int (ida_kk mem' + 1)))) \<and>
        0.25 \<le> ida_rr mem' \<and> ida_rr mem' \<le> 0.9 \<and>
        ida_hh mem' = ida_hh mem * ida_rr mem') \<and>
     (nef' = 2 \<longrightarrow>
        kflag = PREDICT_AGAIN \<and> ida_kk mem' = ida_knew mem \<and>
        (ida_kk mem' = ida_kk mem \<or> ida_kk mem' = ida_kk mem - 1) \<and>
        ida_rr mem' = 0.25 \<and> ida_hh mem' = ida_hh mem * ida_rr mem') \<and>
     (3 \<le> nef' \<and> nef' < ida_maxnef mem \<longrightarrow>
        kflag = PREDICT_AGAIN \<and> ida_kk mem' = 1 \<and>
        ida_rr mem' = 0.25 \<and> ida_hh mem' = ida_hh mem * ida_rr mem') \<and>
     (nef' = ida_maxnef mem \<longrightarrow>
        kflag = IDA_ERR_FAIL \<and> ida_kk mem' = ida_kk mem \<and> ida_hh mem' = ida_hh mem)"
proof -
  consider (one) "nef + 1 = 1" | (two) "nef + 1 = 2"
    | (more) "nef + 1 \<noteq> 1" "nef + 1 \<noteq> 2" "nef + 1 < ida_maxnef mem"
    | (last) "nef + 1 \<noteq> 1" "nef + 1 \<noteq> 2" "\<not> nef + 1 < ida_maxnef mem"
    by blast
  then show ?thesis
  proof cases
    case one
    define rr where "rr = max 0.25 (min 0.9
        (0.9 * RPowerR (2 * est + 0.0001) (- 1 / real_of_int (ida_knew mem + 1))))"
    have bounds: "0.25 \<le> rr" "rr \<le> 0.9"
      unfolding rr_def by auto
    have eq: "IDAHandleNFlag mem ERROR_TEST_FAIL ncf nef est =
        (PREDICT_AGAIN,
         mem\<lparr>ida_phase := 1, ida_netf := ida_netf mem + 1, ida_kk := ida_knew mem, ida_rr := rr,
             ida_hh := ida_hh mem * rr\<rparr>, ncf, 1)"
      unfolding IDAHandleNFlag_etf_1[OF one] Let_def rr_def ..
    have rr: "rr = max 0.25 (min 0.9
        (0.9 * RPowerR (2 * est + 0.0001) (- 1 / real_of_int (ida_knew mem + 1))))"
      by (fact rr_def)
    show ?thesis
      unfolding eq using one knew maxnef bounds rr by simp
  next
    case two
    show ?thesis
      unfolding IDAHandleNFlag_etf_2[OF two] using two knew maxnef by simp
  next
    case more
    show ?thesis
      unfolding IDAHandleNFlag_etf_3[OF more] using more by simp
  next
    case last
    show ?thesis
      unfolding IDAHandleNFlag_etf_4[OF last] using last maxnef by simp
  qed
qed

lemma mem1_etf:
  "3 \<le> ida_maxnef mem1" "ida_knew mem1 = ida_kk mem1 \<or> ida_knew mem1 = ida_kk mem1 - 1"
  "ida_maxnef mem1 = 10" "ida_hh mem1 = 1 / 2" "ida_kk mem1 = 1" "ida_knew mem1 = 1"
  by (simp_all add: mem1_def mem0_def MXNEF_def)

theorem IDAHandleNFlag_error_test_ladder_witness:
  "3 \<le> ida_maxnef mem1 \<and> (ida_knew mem1 = ida_kk mem1 \<or> ida_knew mem1 = ida_kk mem1 - 1) \<and>
   fst (IDAHandleNFlag mem1 ERROR_TEST_FAIL 0 0 0.49995) = PREDICT_AGAIN \<and>
   ida_rr (fst (snd (IDAHandleNFlag mem1 ERROR_TEST_FAIL 0 0 0.49995))) = 0.9 \<and>
   ida_hh (fst (snd (IDAHandleNFlag mem1 ERROR_TEST_FAIL 0 0 0.49995))) = 0.45 \<and>
   fst (IDAHandleNFlag mem1 ERROR_TEST_FAIL 0 1 0.49995) = PREDICT_AGAIN \<and>
   ida_hh (fst (snd (IDAHandleNFlag mem1 ERROR_TEST_FAIL 0 1 0.49995))) = 0.125 \<and>
   fst (IDAHandleNFlag mem1 ERROR_TEST_FAIL 0 2 0.49995) = PREDICT_AGAIN \<and>
   ida_kk (fst (snd (IDAHandleNFlag mem1 ERROR_TEST_FAIL 0 2 0.49995))) = 1 \<and>
   ida_hh (fst (snd (IDAHandleNFlag mem1 ERROR_TEST_FAIL 0 2 0.49995))) = 0.125 \<and>
   fst (IDAHandleNFlag mem1 ERROR_TEST_FAIL 0 9 0.49995) = IDA_ERR_FAIL \<and>
   ida_hh (fst (snd (IDAHandleNFlag mem1 ERROR_TEST_FAIL 0 9 0.49995))) = 0.5"
proof -
  note t = IDAHandleNFlag_error_test_ladder[OF mem1_etf(1,2), unfolded case_prod_beta mem1_etf]
  have a: "fst (IDAHandleNFlag mem1 ERROR_TEST_FAIL 0 0 0.49995) = PREDICT_AGAIN \<and>
   ida_rr (fst (snd (IDAHandleNFlag mem1 ERROR_TEST_FAIL 0 0 0.49995))) = 0.9 \<and>
   ida_hh (fst (snd (IDAHandleNFlag mem1 ERROR_TEST_FAIL 0 0 0.49995))) = 0.45"
    using t[of 0 0 "0.49995"] by (clarsimp simp: RPowerR_def)
  have b: "fst (IDAHandleNFlag mem1 ERROR_TEST_FAIL 0 1 0.49995) = PREDICT_AGAIN \<and>
   ida_hh (fst (snd (IDAHandleNFlag mem1 ERROR_TEST_FAIL 0 1 0.49995))) = 0.125"
    using t[of 0 1 "0.49995"] by clarsimp
  have c: "fst (IDAHandleNFlag mem1 ERROR_TEST_FAIL 0 2 0.49995) = PREDICT_AGAIN \<and>
   ida_kk (fst (snd (IDAHandleNFlag mem1 ERROR_TEST_FAIL 0 2 0.49995))) = 1 \<and>
   ida_hh (fst (snd (IDAHandleNFlag mem1 ERROR_TEST_FAIL 0 2 0.49995))) = 0.125"
    using t[of 0 2 "0.49995"] by clarsimp
  have d: "fst (IDAHandleNFlag mem1 ERROR_TEST_FAIL 0 9 0.49995) = IDA_ERR_FAIL \<and>
   ida_hh (fst (snd (IDAHandleNFlag mem1 ERROR_TEST_FAIL 0 9 0.49995))) = 0.5"
    using t[of 0 9 "0.49995"] by clarsimp
  from a b c d mem1_etf(1,2) show ?thesis by blast
qed

section \<open>Order selection after a successful step\<close>

lemma IDACompleteStep_begin_fields:
  "ida_kk (IDACompleteStep_begin mem) = ida_kk mem"
  "ida_knew (IDACompleteStep_begin mem) = ida_knew mem"
  "ida_maxord (IDACompleteStep_begin mem) = ida_maxord mem"
  "ida_ns (IDACompleteStep_begin mem) = ida_ns mem"
  "ida_hh (IDACompleteStep_begin mem) = ida_hh mem"
  "ida_hmax_inv (IDACompleteStep_begin mem) = ida_hmax_inv mem"
  "ida_nst (IDACompleteStep_begin mem) = ida_nst mem + 1"
  "ida_phase (IDACompleteStep_begin mem) =
     (if ida_knew mem = ida_kk mem - 1 \<or> ida_kk mem = ida_maxord mem then 1 else ida_phase mem)"
  by (simp_all add: IDACompleteStep_begin_def Let_def)

lemma IDACompleteStep_phi_fields:
  "ida_kk (IDACompleteStep_phi mem) = ida_kk mem"
  "ida_hh (IDACompleteStep_phi mem) = ida_hh mem"
  "ida_hmax_inv (IDACompleteStep_phi mem) = ida_hmax_inv mem"
  by (simp_all add: IDACompleteStep_phi_def Let_def)

lemma IDACompleteStep_select_kk:
  "ida_kk (IDACompleteStep_select mem kdiff error_k error_km1) =
     (let a = IDACompleteStep_action mem kdiff error_k error_km1 (fst (IDACompleteStep_kp1 mem))
      in if a = RAISE then ida_kk mem + 1 else if a = LOWER then ida_kk mem - 1 else ida_kk mem)"
  by (simp add: IDACompleteStep_select_def Let_def split: prod.split)


lemma IDACompleteStep_select_hmax:
  "ida_hmax_inv (IDACompleteStep_select mem kdiff error_k error_km1) = ida_hmax_inv mem"
  by (simp add: IDACompleteStep_select_def Let_def split: prod.split)

lemma IDACompleteStep_kp1_cong:
  assumes "ida_kk m = ida_kk m'" "ida_ee m = ida_ee m'" "ida_phi m = ida_phi m'"
    "ida_ewt m = ida_ewt m'" "ida_suppressalg m = ida_suppressalg m'" "ida_id m = ida_id m'"
    "ida_errconQ m = ida_errconQ m'" "ida_eeQ m = ida_eeQ m'" "ida_phiQ m = ida_phiQ m'"
    "ida_ypQ m = ida_ypQ m'" "ida_ewtQ m = ida_ewtQ m'" "ida_errconS m = ida_errconS m'"
    "ida_eeS m = ida_eeS m'" "ida_phiS m = ida_phiS m'" "ida_ewtS m = ida_ewtS m'"
    "ida_Ns m = ida_Ns m'"
  shows "IDACompleteStep_kp1 m = IDACompleteStep_kp1 m'"
  unfolding IDACompleteStep_kp1_def IDAWrmsNorm_def by (simp only: assms)

lemma IDACompleteStep_begin_vectors:
  "ida_ee (IDACompleteStep_begin m) = ida_ee m" "ida_phi (IDACompleteStep_begin m) = ida_phi m"
  "ida_ewt (IDACompleteStep_begin m) = ida_ewt m"
  "ida_suppressalg (IDACompleteStep_begin m) = ida_suppressalg m"
  "ida_id (IDACompleteStep_begin m) = ida_id m"
  "ida_errconQ (IDACompleteStep_begin m) = ida_errconQ m"
  "ida_eeQ (IDACompleteStep_begin m) = ida_eeQ m" "ida_phiQ (IDACompleteStep_begin m) = ida_phiQ m"
  "ida_ypQ (IDACompleteStep_begin m) = ida_ypQ m" "ida_ewtQ (IDACompleteStep_begin m) = ida_ewtQ m"
  "ida_errconS (IDACompleteStep_begin m) = ida_errconS m"
  "ida_eeS (IDACompleteStep_begin m) = ida_eeS m" "ida_phiS (IDACompleteStep_begin m) = ida_phiS m"
  "ida_ewtS (IDACompleteStep_begin m) = ida_ewtS m" "ida_Ns (IDACompleteStep_begin m) = ida_Ns m"
  by (simp_all add: IDACompleteStep_begin_def Let_def)

lemma IDACompleteStep_kp1_begin:
  "IDACompleteStep_kp1 (IDACompleteStep_begin mem) = IDACompleteStep_kp1 mem"
  by (rule IDACompleteStep_kp1_cong)
     (simp_all only: IDACompleteStep_begin_vectors IDACompleteStep_begin_fields)

lemma IDACompleteStep_action_estimated:
  assumes "IDACompleteStep_estimates mem kdiff"
  shows "IDACompleteStep_action mem kdiff error_k error_km1 error_kp1 =
     (let k = ida_kk mem;
          terk = real_of_int (k + 1) * error_k;
          terkp1 = real_of_int (k + 2) * error_kp1;
          terkm1 = real_of_int k * error_km1
      in if k = 1 then (if terkp1 \<ge> 0.5 * terk then MAINTAIN else RAISE)
         else if terkm1 \<le> min terk terkp1 then LOWER
         else if terkp1 \<ge> terk then MAINTAIN
         else RAISE)"
  using assms by (simp add: IDACompleteStep_action_def IDACompleteStep_estimates_def Let_def)

text \<open>
  Claim C6. After a successful step in phase 1 for which the estimate at order \<open>k+1\<close> is
  computed (no decision to lower, not at the maximal order, \<^verbatim>\<open>kk + 1 < ns\<close>, order not just
  raised), with \<open>terk = (k+1) error_k\<close>, \<open>terkp1 = (k+2) error_kp1\<close> and
  \<open>terkm1 = k error_km1\<close>, the next order is: for \<open>k = 1\<close>, 2 unless
  \<open>terkp1 \<ge> 0.5 terk\<close>; otherwise \<open>k-1\<close> if \<open>terkm1 \<le> min terk terkp1\<close>, else \<open>k\<close> if
  \<open>terkp1 \<ge> terk\<close>, else \<open>k+1\<close>.
\<close>

theorem IDACompleteStep_order_choice:
  assumes phase: "ida_phase mem \<noteq> 0"
    and nolower: "ida_knew mem \<noteq> ida_kk mem - 1"
    and nomax: "ida_kk mem \<noteq> ida_maxord mem"
    and const: "ida_kk mem + 1 < ida_ns mem"
    and noraise: "ida_kk mem - ida_kused mem \<noteq> 1"
  shows "let k = ida_kk mem;
             error_kp1 = fst (IDACompleteStep_kp1 mem);
             terk = real_of_int (k + 1) * error_k;
             terkp1 = real_of_int (k + 2) * error_kp1;
             terkm1 = real_of_int k * error_km1
         in ida_kk (IDACompleteStep mem error_k error_km1) =
              (if k = 1 then (if terkp1 \<ge> 0.5 * terk then k else 2)
               else if terkm1 \<le> min terk terkp1 then k - 1
               else if terkp1 \<ge> terk then k
               else k + 1)"
proof -
  let ?m1 = "IDACompleteStep_begin mem"
  let ?kdiff = "ida_kk mem - ida_kused mem"
  have ph: "ida_phase ?m1 \<noteq> 0"
    using phase nolower nomax by (simp add: IDACompleteStep_begin_fields)
  have est: "IDACompleteStep_estimates ?m1 ?kdiff"
    using nolower nomax const noraise
    by (simp add: IDACompleteStep_estimates_def IDACompleteStep_begin_fields)
  have "ida_kk (IDACompleteStep mem error_k error_km1) =
      ida_kk (IDACompleteStep_select ?m1 ?kdiff error_k error_km1)"
    using ph by (simp add: IDACompleteStep_def Let_def IDACompleteStep_phi_fields)
  also have "\<dots> = (let a = IDACompleteStep_action ?m1 ?kdiff error_k error_km1
                              (fst (IDACompleteStep_kp1 mem))
      in if a = RAISE then ida_kk mem + 1 else if a = LOWER then ida_kk mem - 1 else ida_kk mem)"
    by (simp add: IDACompleteStep_select_kk IDACompleteStep_kp1_begin IDACompleteStep_begin_fields
        Let_def)
  finally show ?thesis
    by (simp add: IDACompleteStep_action_estimated[OF est] IDACompleteStep_begin_fields Let_def)
qed

lemma mem1_order:
  "ida_phase mem1 = 1" "ida_knew mem1 = 1" "ida_kk mem1 = 1" "ida_maxord mem1 = 5"
  "ida_kused mem1 = 1" "ida_errconQ mem1 = False" "ida_errconS mem1 = False"
  "ida_suppressalg mem1 = False" "ida_ewt mem1 = [1]"
  "ida_phi mem1 = [[1], [1 / 2], [0], [0], [0], [0]]"
  by (simp_all add: mem1_def mem0_def)

theorem IDACompleteStep_order_choice_witness:
  "ida_phase (mem1\<lparr>ida_ns := 3, ida_ee := [3]\<rparr>) \<noteq> 0 \<and>
   ida_knew (mem1\<lparr>ida_ns := 3, ida_ee := [3]\<rparr>) \<noteq> ida_kk (mem1\<lparr>ida_ns := 3, ida_ee := [3]\<rparr>) - 1 \<and>
   ida_kk (mem1\<lparr>ida_ns := 3, ida_ee := [3]\<rparr>) \<noteq> ida_maxord (mem1\<lparr>ida_ns := 3, ida_ee := [3]\<rparr>) \<and>
   ida_kk (mem1\<lparr>ida_ns := 3, ida_ee := [3]\<rparr>) + 1 < ida_ns (mem1\<lparr>ida_ns := 3, ida_ee := [3]\<rparr>) \<and>
   ida_kk (mem1\<lparr>ida_ns := 3, ida_ee := [3]\<rparr>) - ida_kused (mem1\<lparr>ida_ns := 3, ida_ee := [3]\<rparr>) \<noteq> 1 \<and>
   fst (IDACompleteStep_kp1 (mem1\<lparr>ida_ns := 3, ida_ee := [3]\<rparr>)) = 1 \<and>
   ida_kk (IDACompleteStep (mem1\<lparr>ida_ns := 3, ida_ee := [3]\<rparr>) 10 0) = 2 \<and>
   ida_kk (IDACompleteStep (mem1\<lparr>ida_ns := 3, ida_ee := [3]\<rparr>) 1 0) = 1"
proof -
  let ?m = "mem1\<lparr>ida_ns := 3, ida_ee := [3]\<rparr>"
  have h: "ida_phase ?m \<noteq> 0" "ida_knew ?m \<noteq> ida_kk ?m - 1" "ida_kk ?m \<noteq> ida_maxord ?m"
    "ida_kk ?m + 1 < ida_ns ?m" "ida_kk ?m - ida_kused ?m \<noteq> 1"
    by (simp_all add: mem1_order)
  have e: "fst (IDACompleteStep_kp1 ?m) = 1"
    by (simp add: IDACompleteStep_kp1_def Let_def IDAWrmsNorm_def N_VWrmsNorm_def
        N_VLinearSum_def mem1_order)
  have k: "ida_kk ?m = 1" by (simp add: mem1_order)
  have a: "ida_kk (IDACompleteStep ?m 10 0) = 2"
    using IDACompleteStep_order_choice[OF h, of 10 0] unfolding Let_def e k by simp
  have b: "ida_kk (IDACompleteStep ?m 1 0) = 1"
    using IDACompleteStep_order_choice[OF h, of 1 0] unfolding Let_def e k by simp
  from h e a b show ?thesis by blast
qed

section \<open>Bounds on the step size\<close>













section \<open>The legality test of the interpolation\<close>

text \<open>The flag of IDAGetSolution depends on one comparison only (lines 1672-1677).\<close>

lemma IDAGetSolution_flag:
  "fst (IDAGetSolution mem t yret ypret) =
     (if (t - (ida_tn mem - ida_hused mem - 100 * ida_uround mem * (ida_tn mem + ida_hh mem)))
           * ida_hh mem < 0
      then IDA_BAD_T else IDA_SUCCESS)"
  by (simp add: IDAGetSolution_def Let_def)

lemma IDAGetSolution_bad_t_keeps:
  "fst (IDAGetSolution mem t yret ypret) = IDA_BAD_T \<Longrightarrow>
   snd (IDAGetSolution mem t yret ypret) = (yret, ypret)"
  by (simp add: IDAGetSolution_def Let_def IDA_BAD_T_def IDA_SUCCESS_def split: if_splits)

text \<open>
  Claim C2. The interpolation is specified to fail with \<^verbatim>\<open>IDA_BAD_T\<close> exactly when \<open>t\<close>
  lies outside \<open>[tn - hused, tn]\<close> widened by \<open>100 * uround * (|tn| + |hh|)\<close>. The code
  computes the fuzz as \<open>100 * uround * (tn + hh)\<close>, without absolute values, and tests the
  lower end of the interval only. With \<open>tn = -10\<close> and \<open>hh = hused = 1\<close> the fuzz is
  negative and the left end point \<open>t = -11\<close> of the last step is refused; with \<open>tn = 2\<close>
  the time \<open>t = 100\<close>, far beyond \<open>tn\<close> and its fuzz, is accepted.
\<close>

theorem IDAGetSolution_interval_test:
  "ida_tn (mem1\<lparr>ida_tn := - 10, ida_hh := 1, ida_hused := 1\<rparr>)
     - ida_hused (mem1\<lparr>ida_tn := - 10, ida_hh := 1, ida_hused := 1\<rparr>) \<le> - 11 \<and>
   - 11 \<le> ida_tn (mem1\<lparr>ida_tn := - 10, ida_hh := 1, ida_hused := 1\<rparr>) \<and>
   fst (IDAGetSolution (mem1\<lparr>ida_tn := - 10, ida_hh := 1, ida_hused := 1\<rparr>) (- 11) [0] [0])
     = IDA_BAD_T \<and>
   ida_tn mem1 + 100 * ida_uround mem1 * (\<bar>ida_tn mem1\<bar> + \<bar>ida_hh mem1\<bar>) < 100 \<and>
   fst (IDAGetSolution mem1 100 [0] [0]) = IDA_SUCCESS"
  by (simp add: IDAGetSolution_flag mem1_def mem0_def)

section \<open>Stopping at tstop\<close>


























section \<open>The perturbed parameter of IDASensRes1DQ\<close>

text \<open>Each step of a case keeps the memory within the frame.\<close>

lemma dq_blank_steps:
  "dq_blank w (dq_mem (set_p w v s)) = dq_blank w (dq_mem s)"
  "dq_blank w (dq_mem (count_res s)) = dq_blank w (dq_mem s)"
  by (simp_all add: dq_blank_def set_p_def count_res_def)

lemma dq_exit_simps:
  "dq_exit w mem (Inl (ier, s)) \<longleftrightarrow> ier \<noteq> 0 \<and> dq_blank w (dq_mem s) = dq_blank w mem"
  "dq_exit w mem (Inr s) \<longleftrightarrow> dq_blank w (dq_mem s) = dq_blank w mem"
  by (simp_all add: dq_exit_def)


lemma dq_mem_vectors:
  "dq_mem (s\<lparr>dq_resvalS := x\<rparr>) = dq_mem s"
  "dq_mem (s\<lparr>dq_ytemp := x\<rparr>) = dq_mem s"
  "dq_mem (s\<lparr>dq_yptemp := x\<rparr>) = dq_mem s"
  "dq_mem (s\<lparr>dq_restemp := x\<rparr>) = dq_mem s"
  by simp_all

lemma if_exit:
  "dq_exit w mem (if c then a else b) \<longleftrightarrow> (c \<longrightarrow> dq_exit w mem a) \<and> (\<not> c \<longrightarrow> dq_exit w mem b)"
  by simp

lemmas dq_exit_steps = if_exit dq_exit_simps dq_blank_steps dq_mem_vectors

lemma IDASensRes1DQ_centered1_exit:
  assumes "dq_blank w (dq_mem s) = dq_blank w mem"
  shows "dq_exit w mem (IDASensRes1DQ_centered1 res t yy yp yyS ypS w psave Dely Delp s)"
  unfolding IDASensRes1DQ_centered1_def Let_def
  by (simp only: dq_exit_steps assms) blast

lemma IDASensRes1DQ_centered2_FP_exit:
  assumes "dq_blank w (dq_mem s) = dq_blank w mem"
  shows "dq_exit w mem (IDASensRes1DQ_centered2_FP res t yy yp w psave Delp s)"
  unfolding IDASensRes1DQ_centered2_FP_def Let_def
  by (simp only: dq_exit_steps assms) blast

lemma IDASensRes1DQ_centered2_exit:
  assumes "dq_blank w (dq_mem s) = dq_blank w mem"
  shows "dq_exit w mem
     (IDASensRes1DQ_centered2 res t yy yp yyS ypS w skipFP psave Dely Delp s)"
  unfolding IDASensRes1DQ_centered2_def Let_def
  by (intro if_exit[THEN iffD2] conjI impI IDASensRes1DQ_centered2_FP_exit;
      simp only: dq_exit_steps assms simp_thms)

lemma IDASensRes1DQ_forward1_exit:
  assumes "dq_blank w (dq_mem s) = dq_blank w mem"
  shows "dq_exit w mem
     (IDASensRes1DQ_forward1 res t yy yp resval yyS ypS w psave Dely Delp s)"
  unfolding IDASensRes1DQ_forward1_def Let_def
  by (simp only: dq_exit_steps assms) blast

lemma IDASensRes1DQ_forward2_FP_exit:
  assumes "dq_blank w (dq_mem s) = dq_blank w mem"
  shows "dq_exit w mem (IDASensRes1DQ_forward2_FP res t yy yp resval w psave Delp s)"
  unfolding IDASensRes1DQ_forward2_FP_def Let_def
  by (simp only: dq_exit_steps assms) blast

lemma IDASensRes1DQ_forward2_exit:
  assumes "dq_blank w (dq_mem s) = dq_blank w mem"
  shows "dq_exit w mem
     (IDASensRes1DQ_forward2 res t yy yp resval yyS ypS w skipFP psave Dely Delp s)"
  unfolding IDASensRes1DQ_forward2_def Let_def
  by (intro if_exit[THEN iffD2] conjI impI IDASensRes1DQ_forward2_FP_exit;
      simp only: dq_exit_steps assms simp_thms)

lemma IDASensRes1DQ_switch_exit:
  assumes "dq_blank (fst (IDASensRes1DQ_which mem is)) (dq_mem s) =
           dq_blank (fst (IDASensRes1DQ_which mem is)) mem"
  shows "dq_exit (fst (IDASensRes1DQ_which mem is)) mem
     (IDASensRes1DQ_switch res mem t yy yp resval is yyS ypS s)"
  unfolding IDASensRes1DQ_switch_def Let_def
  by (intro if_exit[THEN iffD2] conjI impI IDASensRes1DQ_centered1_exit
      IDASensRes1DQ_centered2_exit IDASensRes1DQ_forward1_exit IDASensRes1DQ_forward2_exit
      assms)

text \<open>
  The function as a whole. On every path the memory is the one of the call up to
  \<^verbatim>\<open>p[which]\<close> and the counters; when the flag is 0 the parameter array is restored.
\<close>

lemma IDASensRes1DQ_frame:
  "dq_blank (fst (IDASensRes1DQ_which mem is))
     (dq_mem (snd (IDASensRes1DQ res mem t yy yp resval is yyS ypS resvalS ytemp yptemp restemp)))
   = dq_blank (fst (IDASensRes1DQ_which mem is)) mem"
proof -
  let ?s = "\<lparr>dq_mem = mem, dq_resvalS = resvalS, dq_ytemp = ytemp, dq_yptemp = yptemp,
               dq_restemp = restemp\<rparr>"
  let ?b = "IDASensRes1DQ_switch res mem t yy yp resval is yyS ypS ?s"
  have b: "dq_exit (fst (IDASensRes1DQ_which mem is)) mem ?b"
    by (rule IDASensRes1DQ_switch_exit) simp
  show ?thesis
    unfolding IDASensRes1DQ_def Let_def using b
    by (cases ?b) (simp_all add: dq_exit_def dq_blank_steps)
qed

lemma blank_restore:
  assumes "dq_blank w m = dq_blank w mem"
  shows "(ida_p m)[w := ida_p mem ! w] = ida_p mem"
proof -
  from assms have "ida_p (dq_blank w m) = ida_p (dq_blank w mem)" by simp
  then have "(ida_p m)[w := 0] = (ida_p mem)[w := 0]" by (simp add: dq_blank_def)
  then have "((ida_p m)[w := 0])[w := ida_p mem ! w] = ((ida_p mem)[w := 0])[w := ida_p mem ! w]"
    by simp
  then show ?thesis by simp
qed

lemma IDASensRes1DQ_success_restores:
  assumes "fst (IDASensRes1DQ res mem t yy yp resval is yyS ypS resvalS ytemp yptemp restemp) = 0"
  shows "ida_p (dq_mem (snd (IDASensRes1DQ res mem t yy yp resval is yyS ypS resvalS
           ytemp yptemp restemp))) = ida_p mem"
proof -
  let ?s = "\<lparr>dq_mem = mem, dq_resvalS = resvalS, dq_ytemp = ytemp, dq_yptemp = yptemp,
               dq_restemp = restemp\<rparr>"
  let ?b = "IDASensRes1DQ_switch res mem t yy yp resval is yyS ypS ?s"
  have b: "dq_exit (fst (IDASensRes1DQ_which mem is)) mem ?b"
    by (rule IDASensRes1DQ_switch_exit) simp
  show ?thesis
  proof (cases ?b)
    case (Inl r)
    with b assms show ?thesis
      unfolding IDASensRes1DQ_def Let_def by (simp add: dq_exit_def)
  next
    case (Inr s')
    with b have "dq_blank (fst (IDASensRes1DQ_which mem is)) (dq_mem s') =
        dq_blank (fst (IDASensRes1DQ_which mem is)) mem"
      by (simp add: dq_exit_def)
    then have "(ida_p (dq_mem s'))[fst (IDASensRes1DQ_which mem is) :=
        ida_p mem ! fst (IDASensRes1DQ_which mem is)] = ida_p mem"
      by (rule blank_restore)
    then show ?thesis
      unfolding IDASensRes1DQ_def Let_def Inr by (simp add: set_p_def)
  qed
qed

text \<open>
  A residual function that fails when the first parameter exceeds 1, on a one-parameter
  problem with \<open>p = [1]\<close>, \<open>pbar = [1]\<close> and \<open>reltol = 1/100\<close>: the perturbation is
  \<open>Del = 1/10\<close> and the method is \<^verbatim>\<open>CENTERED1\<close>.
\<close>

lemma sqrt_hundredth: "sqrt (1 / 100) = 1 / 10"
  by (rule real_sqrt_unique) (simp_all add: power2_eq_square)

lemma mem0_dq_fields:
  "ida_reltol (mem0\<lparr>ida_reltol := 1 / 100\<rparr>) = 1 / 100"
  "ida_uround (mem0\<lparr>ida_reltol := 1 / 100\<rparr>) = 1 / 2 ^ 52"
  "ida_p (mem0\<lparr>ida_reltol := 1 / 100\<rparr>) = [1]"
  "ida_pbar (mem0\<lparr>ida_reltol := 1 / 100\<rparr>) = [1]"
  "ida_ewt (mem0\<lparr>ida_reltol := 1 / 100\<rparr>) = [1]"
  "ida_rhomax (mem0\<lparr>ida_reltol := 1 / 100\<rparr>) = 0"
  "ida_plist (mem0\<lparr>ida_reltol := 1 / 100\<rparr>) = None"
  "ida_nre mem0 = 0" "ida_nreS mem0 = 0"
  by (simp_all add: mem0_def)

lemma mem0_dq_switch:
  "IDASensRes1DQ_switch (\<lambda>p t y yp out. (if p ! 0 > 1 then 1 else 0, map (\<lambda>yi. p ! 0 * yi) y))
     (mem0\<lparr>ida_reltol := 1 / 100\<rparr>) 0 [0] [0] [0] 0 [0] [0]
     \<lparr>dq_mem = mem0\<lparr>ida_reltol := 1 / 100\<rparr>, dq_resvalS = [0], dq_ytemp = [0],
        dq_yptemp = [0], dq_restemp = [0]\<rparr> =
   Inl (1, \<lparr>dq_mem = mem0\<lparr>ida_reltol := 1 / 100, ida_p := [11 / 10], ida_nre := 1,
                 ida_nreS := 1\<rparr>,
            dq_resvalS = [0], dq_ytemp = [0], dq_yptemp = [0], dq_restemp = [0]\<rparr>)"
  unfolding IDASensRes1DQ_switch_def IDASensRes1DQ_which_def mem0_dq_fields Let_def
  by (simp add: RSqrt_def N_VWrmsNorm_def sqrt_hundredth IDASensRes1DQ_method_def
      IDASensRes1DQ_centered1_def Let_def N_VLinearSum_def ida_consts set_p_def count_res_def
      mem0_dq_fields)

text \<open>
  Claim C9. IDASensRes1DQ is specified to restore \<^verbatim>\<open>p[which]\<close> on every exit path,
  also when a residual call returns a nonzero flag. The code restores it only after the
  \<^verbatim>\<open>switch\<close> (line 5051); every \<^verbatim>\<open>if (ier != 0) return(ier);\<close> leaves the function with
  the perturbed value. On the input above the first residual call of \<^verbatim>\<open>CENTERED1\<close>
  fails: the function returns 1 and leaves \<open>p[0] = 11/10\<close> where it was 1. The rest of
  the memory is as the claim says (\<open>IDASensRes1DQ_frame\<close>), and the parameter is restored
  when the function returns 0 (\<open>IDASensRes1DQ_success_restores\<close>).
\<close>

theorem IDASensRes1DQ_early_return:
  "ida_p (mem0\<lparr>ida_reltol := 1 / 100\<rparr>) = [1] \<and>
   IDASensRes1DQ (\<lambda>p t y yp out. (if p ! 0 > 1 then 1 else 0, map (\<lambda>yi. p ! 0 * yi) y))
     (mem0\<lparr>ida_reltol := 1 / 100\<rparr>) 0 [0] [0] [0] 0 [0] [0] [0] [0] [0] [0] =
   (1, \<lparr>dq_mem = mem0\<lparr>ida_reltol := 1 / 100, ida_p := [11 / 10], ida_nre := 1, ida_nreS := 1\<rparr>,
        dq_resvalS = [0], dq_ytemp = [0], dq_yptemp = [0], dq_restemp = [0]\<rparr>)"
  unfolding IDASensRes1DQ_def Let_def mem0_dq_switch by (simp add: mem0_dq_fields)

end
